theory Spec2Isabelle
  imports Main
begin

section \<open>The host object model\<close>

text \<open>
  The extension module \<^verbatim>\<open>_quadraticelement2module.c\<close> is written against the
  CPython C API. The part of the host that the module's functions touch is modelled
  here: a heap of reference-counted objects, allocation that may fail, the reference
  count macros, argument parsing for the format \<^verbatim>\<open>"|OO"\<close>, member descriptors and
  the slot lookup behind the binary operators and \<^verbatim>\<open>==\<close>.
\<close>

type_synonym addr = nat

datatype pyerror = TypeError | MemoryError | AttributeError

datatype slot_id =
    Py_tp_dealloc | Py_tp_traverse | Py_tp_clear | Py_tp_members | Py_tp_new
  | Py_tp_richcompare | Py_tp_hash | Py_tp_setattro
  | Py_nb_add | Py_nb_multiply | Py_sq_concat | Py_sq_repeat

text \<open>The values stored in the slot table: the functions and the table of this module.\<close>

datatype slot_fn = Slot_dealloc | Slot_traverse | Slot_clear | Slot_members | Slot_new

datatype tp_flag = Py_TPFLAGS_DEFAULT | Py_TPFLAGS_HAVE_GC | Py_TPFLAGS_IMMUTABLETYPE

record PyType_Spec =
  spec_name :: string
  spec_flags :: "tp_flag list"
  spec_slots :: "(slot_id \<times> slot_fn) list"

record pytype =
  tp_name :: string
  tp_flags :: "tp_flag list"
  tp_slots :: "(slot_id \<times> slot_fn) list"

text \<open>
  What an object holds after its header. \<open>QuadraticElement2\<close> is the struct
  \<^verbatim>\<open>quadraticelement2object\<close>: two object pointers, \<open>None\<close> for \<^verbatim>\<open>NULL\<close>.
  \<open>PyModule\<close> carries the module's attribute dictionary and its \<^verbatim>\<open>module_state\<close>
  (the pointer \<^verbatim>\<open>QuadraticElement2_Type\<close>). \<open>PyUnicode\<close> stands for an object
  that is not an integer.
\<close>

datatype body =
    PyLong int
  | PyUnicode string
  | PyTypeObject pytype
  | QuadraticElement2 (qe_a: "addr option") (qe_b: "addr option")
  | PyModule (md_dict: "(string \<times> addr) list") (md_state: "addr option")

record pyobject =
  ob_refcnt :: nat
  ob_type :: addr
  ob_body :: body

text \<open>
  The heap: cell \<open>p\<close> of \<open>objs\<close> is the object at address \<open>p\<close>, \<open>None\<close> once
  freed. \<open>alloc_ok\<close> lists the outcomes of the host's next requests that may fail,
  in order; when the list is used up every further request succeeds.
\<close>

record heap =
  objs :: "pyobject option list"
  alloc_ok :: "bool list"

definition PyType_Type :: addr where
  "PyType_Type = 0"

definition PyLong_Type :: addr where
  "PyLong_Type = 1"

definition lookup :: "heap \<Rightarrow> addr \<Rightarrow> pyobject option" where
  "lookup h p = (if p < length (objs h) then objs h ! p else None)"

definition store :: "heap \<Rightarrow> addr \<Rightarrow> pyobject option \<Rightarrow> heap" where
  "store h p v = h\<lparr>objs := (objs h)[p := v]\<rparr>"

text \<open>A host request that may fail takes the next outcome from \<open>alloc_ok\<close>.\<close>

definition host_try :: "heap \<Rightarrow> bool \<times> heap" where
  "host_try h =
     (case alloc_ok h of
        [] \<Rightarrow> (True, h)
      | ok # rest \<Rightarrow> (ok, h\<lparr>alloc_ok := rest\<rparr>))"

definition host_alloc :: "heap \<Rightarrow> pyobject \<Rightarrow> addr option \<times> heap" where
  "host_alloc h obj =
     (case host_try h of
        (False, h') \<Rightarrow> (None, h')
      | (True, h') \<Rightarrow> (Some (length (objs h')), h'\<lparr>objs := objs h' @ [Some obj]\<rparr>))"

text \<open>
  \<^verbatim>\<open>Py_INCREF\<close> and \<^verbatim>\<open>Py_DECREF\<close>. When the count drops to zero the host
  deallocates the object: the model frees its cell and does not follow the references
  the freed object held. On an address that holds no object (undefined behaviour in C)
  the model leaves the heap as it is.
\<close>

definition Py_INCREF :: "heap \<Rightarrow> addr \<Rightarrow> heap" where
  "Py_INCREF h p =
     (case lookup h p of
        None \<Rightarrow> h
      | Some obj \<Rightarrow> store h p (Some (obj\<lparr>ob_refcnt := ob_refcnt obj + 1\<rparr>)))"

definition Py_DECREF :: "heap \<Rightarrow> addr \<Rightarrow> heap" where
  "Py_DECREF h p =
     (case lookup h p of
        None \<Rightarrow> h
      | Some obj \<Rightarrow>
          if ob_refcnt obj \<le> 1 then store h p None
          else store h p (Some (obj\<lparr>ob_refcnt := ob_refcnt obj - 1\<rparr>)))"

text \<open>
  \<^verbatim>\<open>PyLong_FromLong\<close>: a new reference to an integer object, or \<^verbatim>\<open>NULL\<close>. The
  model makes a new object each time; the host's cache of small integers is not modelled.
\<close>

definition PyLong_FromLong :: "heap \<Rightarrow> int \<Rightarrow> addr option \<times> heap" where
  "PyLong_FromLong h v =
     host_alloc h \<lparr>ob_refcnt = 1, ob_type = PyLong_Type, ob_body = PyLong v\<rparr>"

text \<open>
  \<^verbatim>\<open>type->tp_alloc(type, 0)\<close>, the host's generic allocator, for the type of this
  module: zeroed fields, reference count one, and a reference to the (heap) type.
\<close>

definition tp_alloc :: "heap \<Rightarrow> addr \<Rightarrow> addr option \<times> heap" where
  "tp_alloc h tp =
     (case host_alloc h \<lparr>ob_refcnt = 1, ob_type = tp,
                         ob_body = QuadraticElement2 None None\<rparr> of
        (None, h') \<Rightarrow> (None, h')
      | (Some p, h') \<Rightarrow> (Some p, Py_INCREF h' tp))"

definition Py_TYPE :: "heap \<Rightarrow> addr \<Rightarrow> addr option" where
  "Py_TYPE h op = map_option ob_type (lookup h op)"

text \<open>Reading and writing \<^verbatim>\<open>qe->a\<close> and \<^verbatim>\<open>qe->b\<close>.\<close>

definition get_a :: "heap \<Rightarrow> addr \<Rightarrow> addr option" where
  "get_a h op =
     (case lookup h op of
        None \<Rightarrow> None
      | Some obj \<Rightarrow> (case ob_body obj of QuadraticElement2 x y \<Rightarrow> x | _ \<Rightarrow> None))"

definition get_b :: "heap \<Rightarrow> addr \<Rightarrow> addr option" where
  "get_b h op =
     (case lookup h op of
        None \<Rightarrow> None
      | Some obj \<Rightarrow> (case ob_body obj of QuadraticElement2 x y \<Rightarrow> y | _ \<Rightarrow> None))"

definition set_a :: "heap \<Rightarrow> addr \<Rightarrow> addr option \<Rightarrow> heap" where
  "set_a h op v =
     (case lookup h op of
        None \<Rightarrow> h
      | Some obj \<Rightarrow>
          (case ob_body obj of
             QuadraticElement2 x y \<Rightarrow> store h op (Some (obj\<lparr>ob_body := QuadraticElement2 v y\<rparr>))
           | _ \<Rightarrow> h))"

definition set_b :: "heap \<Rightarrow> addr \<Rightarrow> addr option \<Rightarrow> heap" where
  "set_b h op v =
     (case lookup h op of
        None \<Rightarrow> h
      | Some obj \<Rightarrow>
          (case ob_body obj of
             QuadraticElement2 x y \<Rightarrow> store h op (Some (obj\<lparr>ob_body := QuadraticElement2 x v\<rparr>))
           | _ \<Rightarrow> h))"

text \<open>
  \<^verbatim>\<open>PyArg_ParseTupleAndKeywords(args, kwds, "|OO", kwlist, &a, &b)\<close>: both
  parameters are optional, each is taken by position or by name, and \<^verbatim>\<open>O\<close> stores
  the argument object itself (a borrowed reference, no conversion). The call fails with
  \<^verbatim>\<open>TypeError\<close> on more than two arguments and on a keyword that is not a remaining
  parameter name.
\<close>

definition kwlist :: "string list" where
  "kwlist = [''a'', ''b'']"

definition PyArg_ParseTupleAndKeywords ::
  "addr list \<Rightarrow> (string \<times> addr) list \<Rightarrow> pyerror + (addr option \<times> addr option)" where
  "PyArg_ParseTupleAndKeywords args kwds =
     (if length kwlist < length args + length kwds then Inl TypeError
      else if list_ex (\<lambda>kv. fst kv \<notin> set (drop (length args) kwlist)) kwds then Inl TypeError
      else Inr (if 0 < length args then Some (args ! 0) else map_of kwds (kwlist ! 0),
                if 1 < length args then Some (args ! 1) else map_of kwds (kwlist ! 1)))"

section \<open>QuadraticElement2\<close>

text \<open>\<^verbatim>\<open>quadraticelement2_new\<close>; \<open>Inl\<close> is the \<^verbatim>\<open>NULL\<close> return with the exception set.\<close>

definition quadraticelement2_new ::
  "heap \<Rightarrow> addr \<Rightarrow> addr list \<Rightarrow> (string \<times> addr) list \<Rightarrow> (pyerror + addr) \<times> heap" where
  "quadraticelement2_new h type args kwds =
     (case PyArg_ParseTupleAndKeywords args kwds of
        Inl e \<Rightarrow> (Inl e, h)
      | Inr (a0, b0) \<Rightarrow>
          (case (case a0 of None \<Rightarrow> PyLong_FromLong h 0
                          | Some p \<Rightarrow> (Some p, Py_INCREF h p)) of
             (None, h1) \<Rightarrow> (Inl MemoryError, h1)
           | (Some a, h1) \<Rightarrow>
               (case (case b0 of None \<Rightarrow> PyLong_FromLong h1 0
                               | Some p \<Rightarrow> (Some p, Py_INCREF h1 p)) of
                  (None, h2) \<Rightarrow> (Inl MemoryError, Py_DECREF h2 a)
                | (Some b, h2) \<Rightarrow>
                    (case tp_alloc h2 type of
                       (None, h3) \<Rightarrow> (Inl MemoryError, Py_DECREF (Py_DECREF h3 a) b)
                     | (Some qe, h3) \<Rightarrow>
                         (Inr qe, set_b (set_a h3 qe (Some a)) qe (Some b))))))"

text \<open>
  \<^verbatim>\<open>Py_VISIT(op)\<close> calls the visitor on a pointer that is not \<^verbatim>\<open>NULL\<close>; the
  enclosing function returns at once when the visitor's result is not zero. The visitor
  threads its own argument, of any type \<open>'s\<close>.
\<close>

definition Py_VISIT :: "(addr \<Rightarrow> 's \<Rightarrow> int \<times> 's) \<Rightarrow> addr option \<Rightarrow> 's \<Rightarrow> int \<times> 's" where
  "Py_VISIT visit op arg = (case op of None \<Rightarrow> (0, arg) | Some p \<Rightarrow> visit p arg)"

definition quadraticelement2_traverse ::
  "heap \<Rightarrow> addr \<Rightarrow> (addr \<Rightarrow> 's \<Rightarrow> int \<times> 's) \<Rightarrow> 's \<Rightarrow> int \<times> 's" where
  "quadraticelement2_traverse h op visit arg =
     (case Py_VISIT visit (Py_TYPE h op) arg of
        (vret, arg1) \<Rightarrow>
          if vret \<noteq> 0 then (vret, arg1)
          else (case Py_VISIT visit (get_a h op) arg1 of
                  (vret, arg2) \<Rightarrow>
                    if vret \<noteq> 0 then (vret, arg2)
                    else (case Py_VISIT visit (get_b h op) arg2 of
                            (vret, arg3) \<Rightarrow>
                              if vret \<noteq> 0 then (vret, arg3) else (0, arg3))))"

text \<open>
  \<^verbatim>\<open>Py_CLEAR(qe->a)\<close>: when the field is not \<^verbatim>\<open>NULL\<close>, set it to \<^verbatim>\<open>NULL\<close>
  and release the old value.
\<close>

definition quadraticelement2_clear :: "heap \<Rightarrow> addr \<Rightarrow> int \<times> heap" where
  "quadraticelement2_clear h op =
     (let h1 = (case get_a h op of
                  None \<Rightarrow> h
                | Some tmp \<Rightarrow> Py_DECREF (set_a h op None) tmp);
          h2 = (case get_b h1 op of
                  None \<Rightarrow> h1
                | Some tmp \<Rightarrow> Py_DECREF (set_b h1 op None) tmp)
      in (0, h2))"


subsection \<open>Members\<close>

datatype member_type = Py_T_OBJECT_EX

datatype member_flag = Py_READONLY

text \<open>\<^verbatim>\<open>offsetof(quadraticelement2object, a)\<close> and \<^verbatim>\<open>offsetof(quadraticelement2object, b)\<close>.\<close>

datatype member_offset = Offset_a | Offset_b

record PyMemberDef =
  m_name :: string
  m_type :: member_type
  m_offset :: member_offset
  m_flags :: "member_flag list"

definition quadraticelement2_members :: "PyMemberDef list" where
  "quadraticelement2_members =
     [\<lparr>m_name = ''a'', m_type = Py_T_OBJECT_EX, m_offset = Offset_a, m_flags = [Py_READONLY]\<rparr>,
      \<lparr>m_name = ''b'', m_type = Py_T_OBJECT_EX, m_offset = Offset_b, m_flags = [Py_READONLY]\<rparr>]"

definition field_at :: "heap \<Rightarrow> addr \<Rightarrow> member_offset \<Rightarrow> addr option" where
  "field_at h op off = (case off of Offset_a \<Rightarrow> get_a h op | Offset_b \<Rightarrow> get_b h op)"

definition set_field_at :: "heap \<Rightarrow> addr \<Rightarrow> member_offset \<Rightarrow> addr option \<Rightarrow> heap" where
  "set_field_at h op off v = (case off of Offset_a \<Rightarrow> set_a h op v | Offset_b \<Rightarrow> set_b h op v)"

text \<open>
  The host's member descriptors. \<^verbatim>\<open>PyMember_GetOne\<close> on a \<^verbatim>\<open>Py_T_OBJECT_EX\<close>
  member returns a new reference to the stored object and raises \<^verbatim>\<open>AttributeError\<close>
  on \<^verbatim>\<open>NULL\<close>. \<^verbatim>\<open>PyMember_SetOne\<close> (a value of \<open>None\<close> is a deletion) refuses a
  member flagged \<^verbatim>\<open>Py_READONLY\<close> before anything else.
\<close>

definition PyMember_GetOne :: "heap \<Rightarrow> addr \<Rightarrow> PyMemberDef \<Rightarrow> (pyerror + addr) \<times> heap" where
  "PyMember_GetOne h op m =
     (case m_type m of
        Py_T_OBJECT_EX \<Rightarrow>
          (case field_at h op (m_offset m) of
             None \<Rightarrow> (Inl AttributeError, h)
           | Some v \<Rightarrow> (Inr v, Py_INCREF h v)))"

definition PyMember_SetOne ::
  "heap \<Rightarrow> addr \<Rightarrow> PyMemberDef \<Rightarrow> addr option \<Rightarrow> (pyerror + unit) \<times> heap" where
  "PyMember_SetOne h op m v =
     (if Py_READONLY \<in> set (m_flags m) then (Inl AttributeError, h)
      else (case m_type m of
              Py_T_OBJECT_EX \<Rightarrow>
                (let oldv = field_at h op (m_offset m) in
                 if v = None \<and> oldv = None then (Inl AttributeError, h)
                 else
                   (let h1 = (case v of None \<Rightarrow> h | Some p \<Rightarrow> Py_INCREF h p);
                        h2 = set_field_at h1 op (m_offset m) v;
                        h3 = (case oldv of None \<Rightarrow> h2 | Some p \<Rightarrow> Py_DECREF h2 p)
                    in (Inr (), h3)))))"

text \<open>
  Attribute access by name goes through the member table of the type; the names the
  table does not list are not modelled and are reported as \<^verbatim>\<open>AttributeError\<close>.
\<close>

definition member_getattr ::
  "PyMemberDef list \<Rightarrow> heap \<Rightarrow> addr \<Rightarrow> string \<Rightarrow> (pyerror + addr) \<times> heap" where
  "member_getattr tbl h op nm =
     (case find (\<lambda>m. m_name m = nm) tbl of
        None \<Rightarrow> (Inl AttributeError, h)
      | Some m \<Rightarrow> PyMember_GetOne h op m)"

definition member_setattr ::
  "PyMemberDef list \<Rightarrow> heap \<Rightarrow> addr \<Rightarrow> string \<Rightarrow> addr option \<Rightarrow> (pyerror + unit) \<times> heap" where
  "member_setattr tbl h op nm v =
     (case find (\<lambda>m. m_name m = nm) tbl of
        None \<Rightarrow> (Inl AttributeError, h)
      | Some m \<Rightarrow> PyMember_SetOne h op m v)"

subsection \<open>The type and the module\<close>

definition quadraticelement2_slots :: "(slot_id \<times> slot_fn) list" where
  "quadraticelement2_slots =
     [(Py_tp_dealloc, Slot_dealloc),
      (Py_tp_traverse, Slot_traverse),
      (Py_tp_clear, Slot_clear),
      (Py_tp_members, Slot_members),
      (Py_tp_new, Slot_new)]"

text \<open>The spec of the type; \<^verbatim>\<open>basicsize\<close>, a matter of memory layout, is left out.\<close>

definition quadraticelement2_spec :: PyType_Spec where
  "quadraticelement2_spec =
     \<lparr>spec_name = ''radicalfield._quadraticelement2.QuadraticElement2'',
      spec_flags = [Py_TPFLAGS_DEFAULT, Py_TPFLAGS_HAVE_GC, Py_TPFLAGS_IMMUTABLETYPE],
      spec_slots = quadraticelement2_slots\<rparr>"

text \<open>
  \<^verbatim>\<open>PyType_FromModuleAndSpec(mod, spec, NULL)\<close>: a new heap type with the name,
  flags and slots of the spec, holding a reference to the module; \<^verbatim>\<open>NULL\<close> on failure.
\<close>

definition type_of_spec :: "PyType_Spec \<Rightarrow> pytype" where
  "type_of_spec spec =
     \<lparr>tp_name = spec_name spec, tp_flags = spec_flags spec, tp_slots = spec_slots spec\<rparr>"

definition PyType_FromModuleAndSpec :: "heap \<Rightarrow> addr \<Rightarrow> PyType_Spec \<Rightarrow> addr option \<times> heap" where
  "PyType_FromModuleAndSpec h md spec =
     (case host_alloc h \<lparr>ob_refcnt = 1, ob_type = PyType_Type,
                         ob_body = PyTypeObject (type_of_spec spec)\<rparr> of
        (None, h') \<Rightarrow> (None, h')
      | (Some t, h') \<Rightarrow> (Some t, Py_INCREF h' md))"


definition set_state :: "heap \<Rightarrow> addr \<Rightarrow> addr option \<Rightarrow> heap" where
  "set_state h md v =
     (case lookup h md of
        None \<Rightarrow> h
      | Some obj \<Rightarrow>
          (case ob_body obj of
             PyModule d st \<Rightarrow> store h md (Some (obj\<lparr>ob_body := PyModule d v\<rparr>))
           | _ \<Rightarrow> h))"


text \<open>The host's short type name: the part of \<^verbatim>\<open>tp_name\<close> after the last dot.\<close>

definition type_short_name :: "string \<Rightarrow> string" where
  "type_short_name s = rev (takeWhile (\<lambda>c. c \<noteq> CHR ''.'') (rev s))"

fun dict_set :: "string \<Rightarrow> addr \<Rightarrow> (string \<times> addr) list \<Rightarrow> (string \<times> addr) list" where
  "dict_set k v [] = [(k, v)]"
| "dict_set k v (kv # d) = (if fst kv = k then (k, v) # d else kv # dict_set k v d)"

text \<open>
  \<^verbatim>\<open>PyModule_AddType(mod, type)\<close>: binds the short name of the type to the type in
  the module's dictionary (a new reference to the type; a value the name was bound to
  before is released). It returns \<open>-1\<close> when the first argument is not a module, when the second is
  not a type, or when the host fails to insert.
\<close>

definition PyModule_AddType :: "heap \<Rightarrow> addr \<Rightarrow> addr \<Rightarrow> int \<times> heap" where
  "PyModule_AddType h md tp =
     (case lookup h tp of
        None \<Rightarrow> (-1, h)
      | Some t \<Rightarrow>
          (case ob_body t of
             PyTypeObject ty \<Rightarrow>
               (case lookup h md of
                  None \<Rightarrow> (-1, h)
                | Some m \<Rightarrow>
                    (case ob_body m of
                       PyModule d st \<Rightarrow>
                         (case host_try h of
                            (False, h') \<Rightarrow> (-1, h')
                          | (True, h') \<Rightarrow>
                              (let nm = type_short_name (tp_name ty);
                                   h1 = Py_INCREF h' tp;
                                   h2 = store h1 md
                                          (Some (m\<lparr>ob_body := PyModule (dict_set nm tp d) st\<rparr>));
                                   h3 = (case map_of d nm of
                                           None \<Rightarrow> h2
                                         | Some old \<Rightarrow> Py_DECREF h2 old)
                               in (0, h3)))
                     | _ \<Rightarrow> (-1, h)))
           | _ \<Rightarrow> (-1, h)))"

definition module_exec :: "heap \<Rightarrow> addr \<Rightarrow> int \<times> heap" where
  "module_exec h md =
     (case PyType_FromModuleAndSpec h md quadraticelement2_spec of
        (tp, h1) \<Rightarrow>
          (let h2 = set_state h1 md tp in
           case tp of
             None \<Rightarrow> (-1, h2)
           | Some t \<Rightarrow>
               (case PyModule_AddType h2 md t of
                  (r, h3) \<Rightarrow> if r < 0 then (-1, h3) else (0, h3))))"

subsection \<open>Operator dispatch of the host\<close>

text \<open>
  The host finds the implementation of a binary operator and of \<^verbatim>\<open>==\<close> in the
  slots of the operands' types. A type made from a spec without bases inherits from
  \<^verbatim>\<open>object\<close>, which has no number or sequence slots and compares by identity, so a
  slot missing from the table is the behaviour of \<^verbatim>\<open>object\<close>. \<open>Inr f\<close> of the
  arithmetic dispatch (\<open>Inl f\<close> of the comparison) says that the host hands the
  operands to the slot function \<open>f\<close>.
\<close>

definition type_slot :: "heap \<Rightarrow> addr \<Rightarrow> slot_id \<Rightarrow> slot_fn option" where
  "type_slot h op sid =
     (case Py_TYPE h op of
        None \<Rightarrow> None
      | Some t \<Rightarrow>
          (case lookup h t of
             None \<Rightarrow> None
           | Some tobj \<Rightarrow>
               (case ob_body tobj of
                  PyTypeObject ty \<Rightarrow> map_of (tp_slots ty) sid
                | _ \<Rightarrow> None)))"

definition binary_op1 :: "heap \<Rightarrow> addr \<Rightarrow> addr \<Rightarrow> slot_id \<Rightarrow> slot_fn option" where
  "binary_op1 h v w sid =
     (case type_slot h v sid of
        Some f \<Rightarrow> Some f
      | None \<Rightarrow> type_slot h w sid)"

definition PyNumber_Add :: "heap \<Rightarrow> addr \<Rightarrow> addr \<Rightarrow> pyerror + slot_fn" where
  "PyNumber_Add h v w =
     (case binary_op1 h v w Py_nb_add of
        Some f \<Rightarrow> Inr f
      | None \<Rightarrow>
          (case type_slot h v Py_sq_concat of
             Some f \<Rightarrow> Inr f
           | None \<Rightarrow> Inl TypeError))"

definition PyNumber_Multiply :: "heap \<Rightarrow> addr \<Rightarrow> addr \<Rightarrow> pyerror + slot_fn" where
  "PyNumber_Multiply h v w =
     (case binary_op1 h v w Py_nb_multiply of
        Some f \<Rightarrow> Inr f
      | None \<Rightarrow>
          (case type_slot h v Py_sq_repeat of
             Some f \<Rightarrow> Inr f
           | None \<Rightarrow>
               (case type_slot h w Py_sq_repeat of
                  Some f \<Rightarrow> Inr f
                | None \<Rightarrow> Inl TypeError)))"

definition PyObject_RichCompare_EQ :: "heap \<Rightarrow> addr \<Rightarrow> addr \<Rightarrow> slot_fn + bool" where
  "PyObject_RichCompare_EQ h v w =
     (case binary_op1 h v w Py_tp_richcompare of
        Some f \<Rightarrow> Inl f
      | None \<Rightarrow> Inr (v = w))"

subsection \<open>Notions used in the statements\<close>

text \<open>Every live object is referenced at least once.\<close>

definition heap_ok :: "heap \<Rightarrow> bool" where
  "heap_ok h =
     list_all (\<lambda>c. case c of None \<Rightarrow> True | Some obj \<Rightarrow> 0 < ob_refcnt obj) (objs h)"

definition body_at :: "heap \<Rightarrow> addr \<Rightarrow> body option" where
  "body_at h p = map_option ob_body (lookup h p)"

text \<open>The value of the integer object at an address, when there is one.\<close>

definition long_value :: "heap \<Rightarrow> addr \<Rightarrow> int option" where
  "long_value h p = (case body_at h p of Some (PyLong v) \<Rightarrow> Some v | _ \<Rightarrow> None)"

text \<open>The two fields of an element as integers.\<close>

definition element_fields :: "heap \<Rightarrow> addr \<Rightarrow> int option \<times> int option" where
  "element_fields h op =
     (case get_a h op of None \<Rightarrow> None | Some p \<Rightarrow> long_value h p,
      case get_b h op of None \<Rightarrow> None | Some p \<Rightarrow> long_value h p)"

text \<open>An object is an element when its type was made from \<open>quadraticelement2_spec\<close>.\<close>

definition is_element :: "heap \<Rightarrow> addr \<Rightarrow> bool" where
  "is_element h op =
     (case Py_TYPE h op of
        None \<Rightarrow> False
      | Some t \<Rightarrow> body_at h t = Some (PyTypeObject (type_of_spec quadraticelement2_spec)))"

text \<open>
  The block that \<open>quadraticelement2_new\<close> runs for each of its two parameters: the
  default \<^verbatim>\<open>PyLong_FromLong(0)\<close> for an omitted argument, a new reference to a given
  one.
\<close>

definition acquire :: "heap \<Rightarrow> addr option \<Rightarrow> addr option \<times> heap" where
  "acquire h x =
     (case x of None \<Rightarrow> PyLong_FromLong h 0 | Some p \<Rightarrow> (Some p, Py_INCREF h p))"

text \<open>A later heap keeps the contents of every cell of an earlier one.\<close>

definition pres :: "heap \<Rightarrow> heap \<Rightarrow> bool" where
  "pres h h1 \<longleftrightarrow>
     length (objs h) \<le> length (objs h1) \<and> (\<forall>q<length (objs h). body_at h1 q = body_at h q)"

subsection \<open>A concrete interpreter state\<close>

text \<open>
  Addresses 0 and 1 hold the static types \<^verbatim>\<open>type\<close> and \<^verbatim>\<open>int\<close> (their own slots
  are not modelled), 2 the module, 3 to 7 the integers 1, 2, 3, 4 and 0, and 8 a string.
\<close>

definition static_type :: "string \<Rightarrow> pyobject" where
  "static_type nm =
     \<lparr>ob_refcnt = 1, ob_type = PyType_Type,
      ob_body = PyTypeObject \<lparr>tp_name = nm, tp_flags = [Py_TPFLAGS_DEFAULT], tp_slots = []\<rparr>\<rparr>"

definition long_object :: "int \<Rightarrow> pyobject" where
  "long_object v = \<lparr>ob_refcnt = 1, ob_type = PyLong_Type, ob_body = PyLong v\<rparr>"

definition demo_objs :: "pyobject option list" where
  "demo_objs =
     [Some (static_type ''type''),
      Some (static_type ''int''),
      Some \<lparr>ob_refcnt = 1, ob_type = 0, ob_body = PyModule [] None\<rparr>,
      Some (long_object 1),
      Some (long_object 2),
      Some (long_object 3),
      Some (long_object 4),
      Some (long_object 0),
      Some \<lparr>ob_refcnt = 1, ob_type = 0, ob_body = PyUnicode ''x''\<rparr>]"

definition demo_heap0 :: heap where
  "demo_heap0 = \<lparr>objs = demo_objs, alloc_ok = []\<rparr>"

text \<open>After the module has run: the type is at address 9.\<close>

definition demo_heap1 :: heap where
  "demo_heap1 = snd (module_exec demo_heap0 2)"

text \<open>After constructing the elements (1, 2) at address 10 and (3, 4) at address 11.\<close>

definition demo_heap2 :: heap where
  "demo_heap2 = snd (quadraticelement2_new demo_heap1 9 [3, 4] [])"

definition demo_heap3 :: heap where
  "demo_heap3 = snd (quadraticelement2_new demo_heap2 9 [5, 6] [])"

text \<open>The state after the module has run, with a host that fails a later request.\<close>

definition demo_heap_fail :: heap where
  "demo_heap_fail = demo_heap1\<lparr>alloc_ok := [True, False]\<rparr>"

definition demo_heap_nomem :: heap where
  "demo_heap_nomem = demo_heap1\<lparr>alloc_ok := [False]\<rparr>"

subsection \<open>Reference behaviour of a traversal\<close>

text \<open>
  Visiting a list of objects in order, stopping at the first result that is not zero;
  and the pointers an element holds: its type and the fields that are not \<^verbatim>\<open>NULL\<close>.
\<close>

fun visit_all :: "(addr \<Rightarrow> 's \<Rightarrow> int \<times> 's) \<Rightarrow> addr list \<Rightarrow> 's \<Rightarrow> int \<times> 's" where
  "visit_all visit [] arg = (0, arg)"
| "visit_all visit (p # ps) arg =
     (case visit p arg of
        (vret, arg') \<Rightarrow> if vret \<noteq> 0 then (vret, arg') else visit_all visit ps arg')"

definition referents :: "heap \<Rightarrow> addr \<Rightarrow> addr list" where
  "referents h op =
     concat (map (\<lambda>r. case r of None \<Rightarrow> [] | Some p \<Rightarrow> [p])
               [Py_TYPE h op, get_a h op, get_b h op])"

text \<open>Two visitors that record their calls: one reports success, one reports failure.\<close>

definition recording_visit :: "addr \<Rightarrow> addr list \<Rightarrow> int \<times> addr list" where
  "recording_visit p s = (0, s @ [p])"

definition failing_visit :: "addr \<Rightarrow> addr list \<Rightarrow> int \<times> addr list" where
  "failing_visit p s = (1, s @ [p])"

text \<open>A second element (1, 2), at address 12.\<close>

definition demo_heap4 :: heap where
  "demo_heap4 = snd (quadraticelement2_new demo_heap3 9 [3, 4] [])"

text \<open>
  The element made without arguments, at address 12, and after it the element made from
  the integer zero at address 7 twice, at address 13.
\<close>

definition demo_heap5 :: heap where
  "demo_heap5 = snd (quadraticelement2_new demo_heap1 9 [] [])"

definition demo_heap6 :: heap where
  "demo_heap6 = snd (quadraticelement2_new demo_heap5 9 [7, 7] [])"

section \<open>Properties of the heap primitives\<close>

lemma heap_ok_lookup: "heap_ok h \<Longrightarrow> lookup h p = Some obj \<Longrightarrow> 0 < ob_refcnt obj"
  by (auto simp: heap_ok_def lookup_def list_all_length split: if_splits option.splits)

lemma lookup_store:
  "lookup (store h p v) q = (if q = p \<and> p < length (objs h) then v else lookup h q)"
  by (simp add: lookup_def store_def)

lemma length_store: "length (objs (store h p v)) = length (objs h)"
  by (simp add: store_def)

lemma lookup_INCREF:
  "lookup (Py_INCREF h p) q =
     (if q = p then map_option (\<lambda>obj. obj\<lparr>ob_refcnt := ob_refcnt obj + 1\<rparr>) (lookup h p)
      else lookup h q)"
  by (auto simp: Py_INCREF_def lookup_store split: option.splits) (simp add: lookup_def split: if_splits)

lemma length_INCREF: "length (objs (Py_INCREF h p)) = length (objs h)"
  by (simp add: Py_INCREF_def length_store split: option.splits)

lemma lookup_DECREF:
  "lookup (Py_DECREF h p) q =
     (if q = p then
        (case lookup h p of None \<Rightarrow> None
         | Some obj \<Rightarrow> if ob_refcnt obj \<le> 1 then None
                       else Some (obj\<lparr>ob_refcnt := ob_refcnt obj - 1\<rparr>))
      else lookup h q)"
  by (auto simp: Py_DECREF_def lookup_store split: option.splits) (simp_all add: lookup_def split: if_splits)

lemma length_DECREF: "length (objs (Py_DECREF h p)) = length (objs h)"
  by (simp add: Py_DECREF_def length_store split: option.splits)

lemma host_alloc_None:
  "host_alloc h obj = (None, h') \<Longrightarrow> objs h' = objs h"
  by (auto simp: host_alloc_def host_try_def split: list.splits bool.splits if_splits)

lemma host_alloc_Some:
  "host_alloc h obj = (Some p, h') \<Longrightarrow> p = length (objs h) \<and> objs h' = objs h @ [Some obj]"
  by (auto simp: host_alloc_def host_try_def split: list.splits bool.splits if_splits)

lemma lookup_eq_objs: "objs h' = objs h \<Longrightarrow> lookup h' = lookup h"
  by (auto simp: lookup_def fun_eq_iff)

lemma lookup_append:
  "objs h' = objs h @ [c] \<Longrightarrow> lookup h' q = (if q = length (objs h) then c else lookup h q)"
  by (auto simp: lookup_def nth_append)



lemma parse_cases:
  "PyArg_ParseTupleAndKeywords args kwds = Inl TypeError \<or>
   (\<exists>a0 b0. PyArg_ParseTupleAndKeywords args kwds = Inr (a0, b0))"
  by (simp add: PyArg_ParseTupleAndKeywords_def)

lemma acquire_None:
  "acquire h x = (None, h1) \<Longrightarrow> lookup h1 = lookup h"
  by (auto simp: acquire_def PyLong_FromLong_def dest!: host_alloc_None lookup_eq_objs split: option.splits)

lemma acquire_Some:
  assumes "acquire h x = (Some p, h1)" "heap_ok h"
  shows "lookup (Py_DECREF h1 p) q = lookup h q"
proof (cases x)
  case None
  with assms(1) obtain obj where "p = length (objs h)" "objs h1 = objs h @ [Some obj]" "ob_refcnt obj = 1"
    by (auto simp: acquire_def PyLong_FromLong_def dest!: host_alloc_Some)
  then show ?thesis
    by (auto simp: lookup_DECREF lookup_append split: option.splits) (simp add: lookup_def)
next
  case (Some r)
  with assms(1) have "p = r" "h1 = Py_INCREF h r" by (auto simp: acquire_def)
  then show ?thesis using heap_ok_lookup[OF assms(2), of r]
    by (cases "lookup h r") (auto simp: lookup_DECREF lookup_INCREF)
qed


lemma heap_ok_iff: "heap_ok h \<longleftrightarrow> (\<forall>p obj. lookup h p = Some obj \<longrightarrow> 0 < ob_refcnt obj)"
  by (auto simp: heap_ok_def lookup_def list_all_length split: option.splits)

lemma heap_ok_INCREF: "heap_ok h \<Longrightarrow> heap_ok (Py_INCREF h p)"
  by (auto simp: heap_ok_iff lookup_INCREF split: if_splits)

lemma heap_ok_alloc: "host_alloc h obj = (r, h1) \<Longrightarrow> 0 < ob_refcnt obj \<Longrightarrow> heap_ok h \<Longrightarrow> heap_ok h1"
  by (cases r) (auto simp: heap_ok_def dest!: host_alloc_None host_alloc_Some)

lemma heap_ok_acquire: "acquire h x = (r, h1) \<Longrightarrow> heap_ok h \<Longrightarrow> heap_ok h1"
  by (cases x) (auto simp: acquire_def PyLong_FromLong_def heap_ok_INCREF dest: heap_ok_alloc)

lemma DECREF_cong: "lookup h1 = lookup h2 \<Longrightarrow> lookup (Py_DECREF h1 p) = lookup (Py_DECREF h2 p)"
  by (auto simp: fun_eq_iff lookup_DECREF)

lemma DECREF_commute: "lookup (Py_DECREF (Py_DECREF h p) r) = lookup (Py_DECREF (Py_DECREF h r) p)"
  by (auto simp: fun_eq_iff lookup_DECREF split: option.splits)

lemma new_unfold:
  "quadraticelement2_new h tp args kwds =
     (case PyArg_ParseTupleAndKeywords args kwds of
        Inl e \<Rightarrow> (Inl e, h)
      | Inr (a0, b0) \<Rightarrow>
          (case acquire h a0 of
             (None, h1) \<Rightarrow> (Inl MemoryError, h1)
           | (Some a, h1) \<Rightarrow>
               (case acquire h1 b0 of
                  (None, h2) \<Rightarrow> (Inl MemoryError, Py_DECREF h2 a)
                | (Some b, h2) \<Rightarrow>
                    (case tp_alloc h2 tp of
                       (None, h3) \<Rightarrow> (Inl MemoryError, Py_DECREF (Py_DECREF h3 a) b)
                     | (Some qe, h3) \<Rightarrow>
                         (Inr qe, set_b (set_a h3 qe (Some a)) qe (Some b))))))"
  unfolding quadraticelement2_new_def acquire_def by (rule refl)

lemma tp_alloc_None: "tp_alloc h tp = (None, h') \<Longrightarrow> lookup h' = lookup h"
  by (auto simp: tp_alloc_def dest!: host_alloc_None lookup_eq_objs split: prod.splits option.splits)

lemma new_error_restores:
  assumes ok: "heap_ok h" and r: "quadraticelement2_new h tp args kwds = (Inl e, h')"
  shows "lookup h' = lookup h"
proof (cases "PyArg_ParseTupleAndKeywords args kwds")
  case (Inl e')
  with r show ?thesis by (simp add: new_unfold)
next
  case (Inr ab)
  obtain a0 b0 where ab: "ab = (a0, b0)" by (cases ab)
  obtain ra h1 where A: "acquire h a0 = (ra, h1)" by (cases "acquire h a0")
  show ?thesis
  proof (cases ra)
    case None
    with r Inr ab A show ?thesis by (simp add: new_unfold acquire_None)
  next
    case (Some a)
    note a = Some
    have ok1: "heap_ok h1" using heap_ok_acquire[OF A ok] .
    have undo_a: "lookup (Py_DECREF h1 a) = lookup h"
      using acquire_Some[OF A[unfolded a] ok] by (simp add: fun_eq_iff)
    obtain rb h2 where B: "acquire h1 b0 = (rb, h2)" by (cases "acquire h1 b0")
    show ?thesis
    proof (cases rb)
      case None
      with B have "lookup h2 = lookup h1" by (simp add: acquire_None)
      then have "lookup (Py_DECREF h2 a) = lookup (Py_DECREF h1 a)" by (rule DECREF_cong)
      with r Inr ab A a B None undo_a show ?thesis by (simp add: new_unfold)
    next
      case (Some b)
      note b = Some
      have undo_b: "lookup (Py_DECREF h2 b) = lookup h1"
        using acquire_Some[OF B[unfolded b] ok1] by (simp add: fun_eq_iff)
      obtain rq h3 where Q: "tp_alloc h2 tp = (rq, h3)" by (cases "tp_alloc h2 tp")
      show ?thesis
      proof (cases rq)
        case None
        with Q have "lookup h3 = lookup h2" by (simp add: tp_alloc_None)
        then have "lookup (Py_DECREF h3 b) = lookup h1" using undo_b DECREF_cong by metis
        then have "lookup (Py_DECREF (Py_DECREF h3 b) a) = lookup h" using undo_a DECREF_cong by metis
        then have "lookup (Py_DECREF (Py_DECREF h3 a) b) = lookup h" by (simp add: DECREF_commute)
        with r Inr ab A a B b Q None show ?thesis by (simp add: new_unfold)
      next
        case (Some qe)
        with r Inr ab A a B b Q show ?thesis by (simp add: new_unfold)
      qed
    qed
  qed
qed


lemma pres_refl: "pres h h"
  by (simp add: pres_def)

lemma pres_trans: "pres h h1 \<Longrightarrow> pres h1 h2 \<Longrightarrow> pres h h2"
  by (auto simp: pres_def)

lemma body_at_INCREF: "body_at (Py_INCREF h p) q = body_at h q"
  by (cases "lookup h p") (auto simp: body_at_def lookup_INCREF)

lemma pres_INCREF: "pres h (Py_INCREF h p)"
  by (simp add: pres_def body_at_INCREF length_INCREF)

lemma body_at_append:
  "objs h' = objs h @ [Some obj] \<Longrightarrow>
   body_at h' q = (if q = length (objs h) then Some (ob_body obj) else body_at h q)"
  by (simp add: body_at_def lookup_append)

lemma host_alloc_pres: "host_alloc h obj = (r, h1) \<Longrightarrow> pres h h1"
proof (cases r)
  case None
  assume "host_alloc h obj = (r, h1)"
  with None have "objs h1 = objs h" by (simp add: host_alloc_None)
  then show ?thesis by (simp add: pres_def body_at_def lookup_def)
next
  case (Some p)
  assume "host_alloc h obj = (r, h1)"
  with Some have "objs h1 = objs h @ [Some obj]" by (simp add: host_alloc_Some)
  then show ?thesis by (simp add: pres_def body_at_append)
qed

lemma acquire_pres: "acquire h x = (r, h1) \<Longrightarrow> pres h h1"
  by (cases x) (auto simp: acquire_def PyLong_FromLong_def pres_INCREF dest: host_alloc_pres)

lemma acquire_default:
  "acquire h None = (Some p, h1) \<Longrightarrow> p < length (objs h1) \<and> body_at h1 p = Some (PyLong 0)"
  by (auto simp: acquire_def PyLong_FromLong_def body_at_append dest!: host_alloc_Some)

lemma acquire_given: "acquire h (Some x) = (Some p, h1) \<Longrightarrow> p = x"
  by (simp add: acquire_def)

lemma tp_alloc_Some:
  "tp_alloc h tp = (Some qe, h1) \<Longrightarrow>
     qe = length (objs h) \<and> pres h h1 \<and> body_at h1 qe = Some (QuadraticElement2 None None)"
  by (auto simp: tp_alloc_def body_at_INCREF pres_def length_INCREF body_at_append
        dest!: host_alloc_Some split: prod.splits option.splits)

lemma body_at_store:
  "body_at (store h p (Some obj)) q = (if q = p \<and> p < length (objs h) then Some (ob_body obj) else body_at h q)"
  by (simp add: body_at_def lookup_store)

lemma get_a_body: "get_a h op = (case body_at h op of Some (QuadraticElement2 x y) \<Rightarrow> x | _ \<Rightarrow> None)"
  by (simp add: get_a_def body_at_def split: option.splits body.splits)

lemma get_b_body: "get_b h op = (case body_at h op of Some (QuadraticElement2 x y) \<Rightarrow> y | _ \<Rightarrow> None)"
  by (simp add: get_b_def body_at_def split: option.splits body.splits)

lemma body_at_set_a:
  "body_at (set_a h op v) q =
     (if q = op then (case body_at h op of Some (QuadraticElement2 x y) \<Rightarrow> Some (QuadraticElement2 v y) | r \<Rightarrow> r)
      else body_at h q)"
  by (auto simp: set_a_def body_at_store split: option.splits body.splits)
     (auto simp: body_at_def lookup_def split: if_splits)

lemma body_at_set_b:
  "body_at (set_b h op v) q =
     (if q = op then (case body_at h op of Some (QuadraticElement2 x y) \<Rightarrow> Some (QuadraticElement2 x v) | r \<Rightarrow> r)
      else body_at h q)"
  by (auto simp: set_b_def body_at_store split: option.splits body.splits)
     (auto simp: body_at_def lookup_def split: if_splits)

lemma new_success:
  assumes r: "quadraticelement2_new h tp args kwds = (Inr qe, h')"
  shows "\<exists>a0 b0 a b. PyArg_ParseTupleAndKeywords args kwds = Inr (a0, b0) \<and>
           body_at h' qe = Some (QuadraticElement2 (Some a) (Some b)) \<and>
           (case a0 of Some x \<Rightarrow> a = x | None \<Rightarrow> body_at h' a = Some (PyLong 0)) \<and>
           (case b0 of Some y \<Rightarrow> b = y | None \<Rightarrow> body_at h' b = Some (PyLong 0)) \<and>
           length (objs h) \<le> qe \<and>
           (\<forall>q<length (objs h). body_at h' q = body_at h q)"
proof (cases "PyArg_ParseTupleAndKeywords args kwds")
  case (Inl e')
  with r show ?thesis by (simp add: new_unfold)
next
  case (Inr ab)
  obtain a0 b0 where ab: "ab = (a0, b0)" by (cases ab)
  obtain ra h1 where A: "acquire h a0 = (ra, h1)" by (cases "acquire h a0")
  obtain a where a: "ra = Some a" using r Inr ab A by (cases ra) (auto simp: new_unfold)
  obtain rb h2 where B: "acquire h1 b0 = (rb, h2)" by (cases "acquire h1 b0")
  obtain b where b: "rb = Some b" using r Inr ab A a B by (cases rb) (auto simp: new_unfold)
  obtain rq h3 where Q: "tp_alloc h2 tp = (rq, h3)" by (cases "tp_alloc h2 tp")
  have rq: "rq = Some qe" and h': "h' = set_b (set_a h3 qe (Some a)) qe (Some b)"
    using r Inr ab A a B b Q by (cases rq; simp add: new_unfold)+
  note A = A[unfolded a] and B = B[unfolded b] and Q = Q[unfolded rq]
  have p1: "pres h h1" and p2: "pres h1 h2" and p3: "pres h2 h3"
    using acquire_pres[OF A] acquire_pres[OF B] tp_alloc_Some[OF Q] by simp_all
  have qe: "qe = length (objs h2)" and fresh: "body_at h3 qe = Some (QuadraticElement2 None None)"
    using tp_alloc_Some[OF Q] by blast+
  have other: "body_at h' q = body_at h3 q" if "q \<noteq> qe" for q
    using that by (simp add: h' body_at_set_a body_at_set_b)
  have 1: "body_at h' qe = Some (QuadraticElement2 (Some a) (Some b))"
    by (simp add: h' body_at_set_a body_at_set_b fresh)
  have 2: "case a0 of Some x \<Rightarrow> a = x | None \<Rightarrow> body_at h' a = Some (PyLong 0)"
  proof (cases a0)
    case None
    with A have "a < length (objs h1)" "body_at h1 a = Some (PyLong 0)"
      using acquire_default by blast+
    with p2 p3 have "a < qe" "body_at h3 a = Some (PyLong 0)" by (auto simp: pres_def qe)
    with None show ?thesis by (simp add: other)
  next
    case (Some x)
    with A show ?thesis by (simp add: acquire_given)
  qed
  have 3: "case b0 of Some y \<Rightarrow> b = y | None \<Rightarrow> body_at h' b = Some (PyLong 0)"
  proof (cases b0)
    case None
    with B have "b < length (objs h2)" "body_at h2 b = Some (PyLong 0)"
      using acquire_default by blast+
    with p3 have "b < qe" "body_at h3 b = Some (PyLong 0)" by (auto simp: pres_def qe)
    with None show ?thesis by (simp add: other)
  next
    case (Some y)
    with B show ?thesis by (simp add: acquire_given)
  qed
  have 4: "length (objs h) \<le> qe" using p1 p2 by (simp add: pres_def qe)
  have 5: "body_at h' q = body_at h q" if "q < length (objs h)" for q
  proof -
    from that 4 have "q \<noteq> qe" by simp
    moreover have "body_at h3 q = body_at h q"
      using pres_trans[OF pres_trans[OF p1 p2] p3] that by (simp add: pres_def)
    ultimately show ?thesis by (simp add: other)
  qed
  from Inr ab 1 2 3 4 5 show ?thesis by blast
qed



lemma alloc_ok_store: "alloc_ok (store h p v) = alloc_ok h"
  by (simp add: store_def)

lemma alloc_ok_INCREF: "alloc_ok (Py_INCREF h p) = alloc_ok h"
  by (simp add: Py_INCREF_def alloc_ok_store split: option.splits)

lemma host_try_INCREF: "fst (host_try (Py_INCREF h p)) = fst (host_try h)"
  by (simp add: host_try_def alloc_ok_INCREF split: list.splits)

lemma host_alloc_fail: "\<not> fst (host_try h) \<Longrightarrow> fst (host_alloc h obj) = None"
  by (auto simp: host_alloc_def split: prod.splits bool.splits)

lemma host_alloc_succeed: "fst (host_try h) \<Longrightarrow> fst (host_alloc h obj) = Some (length (objs h))"
  by (auto simp: host_alloc_def host_try_def split: prod.splits bool.splits list.splits)

lemma tp_alloc_fail: "\<not> fst (host_try h) \<Longrightarrow> fst (tp_alloc h tp) = None"
  using host_alloc_fail[of h "\<lparr>ob_refcnt = 1, ob_type = tp, ob_body = QuadraticElement2 None None\<rparr>"]
  by (auto simp: tp_alloc_def split: prod.splits option.splits)

lemma tp_alloc_succeed: "fst (host_try h) \<Longrightarrow> fst (tp_alloc h tp) = Some (length (objs h))"
  using host_alloc_succeed[of h "\<lparr>ob_refcnt = 1, ob_type = tp, ob_body = QuadraticElement2 None None\<rparr>"]
  by (auto simp: tp_alloc_def split: prod.splits option.splits)

lemma new_given_both:
  assumes "PyArg_ParseTupleAndKeywords args kwds = Inr (Some x, Some y)"
  shows "fst (quadraticelement2_new h tp args kwds) =
           (if fst (host_try h) then Inr (length (objs h)) else Inl MemoryError)"
proof -
  let ?h2 = "Py_INCREF (Py_INCREF h x) y"
  have t: "fst (host_try ?h2) = fst (host_try h)" by (simp add: host_try_INCREF)
  have l: "length (objs ?h2) = length (objs h)" by (simp add: length_INCREF)
  show ?thesis
  proof (cases "fst (host_try h)")
    case True
    with t have "fst (tp_alloc ?h2 tp) = Some (length (objs h))"
      using tp_alloc_succeed[of ?h2 tp] l by simp
    with assms True show ?thesis
      by (cases "tp_alloc ?h2 tp") (simp add: new_unfold acquire_def)
  next
    case False
    with t have "fst (tp_alloc ?h2 tp) = None"
      using tp_alloc_fail[of ?h2 tp] by simp
    with assms False show ?thesis
      by (cases "tp_alloc ?h2 tp") (simp add: new_unfold acquire_def)
  qed
qed

lemma parse_positional: "PyArg_ParseTupleAndKeywords [x, y] [] = Inr (Some x, Some y)"
  by (simp add: PyArg_ParseTupleAndKeywords_def kwlist_def)

lemma parse_keywords: "PyArg_ParseTupleAndKeywords [] [(''a'', x), (''b'', y)] = Inr (Some x, Some y)"
  by (simp add: PyArg_ParseTupleAndKeywords_def kwlist_def)

lemma parse_mixed: "PyArg_ParseTupleAndKeywords [x] [(''b'', y)] = Inr (Some x, Some y)"
  by (simp add: PyArg_ParseTupleAndKeywords_def kwlist_def)

lemma parse_empty: "PyArg_ParseTupleAndKeywords [] [] = Inr (None, None)"
  by (simp add: PyArg_ParseTupleAndKeywords_def kwlist_def)

lemma parse_three: "PyArg_ParseTupleAndKeywords [x, y, z] [] = Inl TypeError"
  by (simp add: PyArg_ParseTupleAndKeywords_def kwlist_def)

lemma parse_dup: "PyArg_ParseTupleAndKeywords [x] [(''a'', y)] = Inl TypeError"
  by (simp add: PyArg_ParseTupleAndKeywords_def kwlist_def)

lemma lookup_set_a_other: "q \<noteq> op \<Longrightarrow> lookup (set_a h op v) q = lookup h q"
  by (simp add: set_a_def lookup_store split: option.splits body.splits)

lemma lookup_set_b_other: "q \<noteq> op \<Longrightarrow> lookup (set_b h op v) q = lookup h q"
  by (simp add: set_b_def lookup_store split: option.splits body.splits)

lemma host_try_suffix: "host_try h = (r, h') \<Longrightarrow> set (alloc_ok h') \<subseteq> set (alloc_ok h) \<and> (\<not> r \<longrightarrow> False \<in> set (alloc_ok h))"
  by (auto simp: host_try_def split: list.splits)

lemma host_alloc_script:
  "host_alloc h obj = (r, h') \<Longrightarrow>
     set (alloc_ok h') \<subseteq> set (alloc_ok h) \<and> (r = None \<longrightarrow> False \<in> set (alloc_ok h))"
  by (cases "host_try h") (auto simp: host_alloc_def dest!: host_try_suffix split: bool.splits)

lemma acquire_script:
  "acquire h x = (r, h') \<Longrightarrow>
     set (alloc_ok h') \<subseteq> set (alloc_ok h) \<and> (r = None \<longrightarrow> False \<in> set (alloc_ok h))"
  by (cases x) (auto simp: acquire_def PyLong_FromLong_def alloc_ok_INCREF dest!: host_alloc_script)

lemma tp_alloc_script:
  "tp_alloc h tp = (None, h') \<Longrightarrow> False \<in> set (alloc_ok h)"
  by (auto simp: tp_alloc_def dest!: host_alloc_script split: prod.splits option.splits)

lemma new_error_kind:
  assumes r: "quadraticelement2_new h tp args kwds = (Inl e, h')"
  shows "e = TypeError \<and> PyArg_ParseTupleAndKeywords args kwds = Inl TypeError \<or>
         e = MemoryError \<and> False \<in> set (alloc_ok h) \<and>
           (\<exists>ab. PyArg_ParseTupleAndKeywords args kwds = Inr ab)"
proof (cases "PyArg_ParseTupleAndKeywords args kwds")
  case (Inl e')
  with r parse_cases[of args kwds] show ?thesis by (auto simp: new_unfold)
next
  case (Inr ab)
  obtain a0 b0 where ab: "ab = (a0, b0)" by (cases ab)
  obtain ra h1 where A: "acquire h a0 = (ra, h1)" by (cases "acquire h a0")
  note sA = acquire_script[OF A]
  show ?thesis
  proof (cases ra)
    case None
    with r Inr ab A sA show ?thesis by (simp add: new_unfold)
  next
    case (Some a)
    note a = Some
    obtain rb h2 where B: "acquire h1 b0 = (rb, h2)" by (cases "acquire h1 b0")
    note sB = acquire_script[OF B]
    show ?thesis
    proof (cases rb)
      case None
      with r Inr ab A a B sA sB show ?thesis by (auto simp: new_unfold)
    next
      case (Some b)
      note b = Some
      obtain rq h3 where Q: "tp_alloc h2 tp = (rq, h3)" by (cases "tp_alloc h2 tp")
      show ?thesis
      proof (cases rq)
        case None
        with Q have "False \<in> set (alloc_ok h2)" by (simp add: tp_alloc_script)
        with sA sB have "False \<in> set (alloc_ok h)" by blast
        with r Inr ab A a B b Q None show ?thesis by (simp add: new_unfold)
      next
        case (Some qe)
        with r Inr ab A a B b Q show ?thesis by (simp add: new_unfold)
      qed
    qed
  qed
qed

lemma tp_alloc_lookup:
  assumes "tp_alloc h tp = (Some qe, h1)" "q < length (objs h)"
  shows "lookup h1 q = (if q = tp then map_option (\<lambda>obj. obj\<lparr>ob_refcnt := ob_refcnt obj + 1\<rparr>) (lookup h q)
                        else lookup h q)"
proof -
  from assms(1) obtain h0 where
    A: "host_alloc h \<lparr>ob_refcnt = 1, ob_type = tp, ob_body = QuadraticElement2 None None\<rparr> = (Some qe, h0)"
    and h1: "h1 = Py_INCREF h0 tp"
    by (auto simp: tp_alloc_def split: prod.splits option.splits)
  from host_alloc_Some[OF A] assms(2) have "lookup h0 q = lookup h q"
    by (simp add: lookup_append)
  moreover from host_alloc_Some[OF A] assms(2) have "tp = q \<Longrightarrow> lookup h0 tp = lookup h q"
    by (simp add: lookup_append)
  ultimately show ?thesis by (auto simp: h1 lookup_INCREF)
qed

lemma new_given_both_refcounts:
  assumes p: "PyArg_ParseTupleAndKeywords args kwds = Inr (Some x, Some y)"
      and r: "quadraticelement2_new h tp args kwds = (Inr qe, h')"
      and q: "q < length (objs h)"
  shows "lookup h' q =
           map_option (\<lambda>obj. obj\<lparr>ob_refcnt := ob_refcnt obj + count_list [x, y, tp] q\<rparr>) (lookup h q)"
proof -
  let ?h2 = "Py_INCREF (Py_INCREF h x) y"
  from new_given_both[OF p, of h tp] r have qe: "qe = length (objs h)"
    by (simp split: if_splits)
  from r p obtain h3 where Q: "tp_alloc ?h2 tp = (Some qe, h3)"
    and h': "h' = set_b (set_a h3 qe (Some x)) qe (Some y)"
    by (auto simp: new_unfold acquire_def split: prod.splits option.splits)
  have l: "q < length (objs ?h2)" using q by (simp add: length_INCREF)
  have "lookup h' q = lookup h3 q"
    using q qe by (simp add: h' lookup_set_a_other lookup_set_b_other)
  also have "\<dots> = (if q = tp then map_option (\<lambda>obj. obj\<lparr>ob_refcnt := ob_refcnt obj + 1\<rparr>) (lookup ?h2 q)
                        else lookup ?h2 q)"
    by (rule tp_alloc_lookup[OF Q l])
  also have "\<dots> = map_option (\<lambda>obj. obj\<lparr>ob_refcnt := ob_refcnt obj + count_list [x, y, tp] q\<rparr>) (lookup h q)"
    by (cases "lookup h q") (auto simp: lookup_INCREF)
  finally show ?thesis .
qed

section \<open>Properties of traversal, clearing and members\<close>

lemma traverse_visit_all:
  "quadraticelement2_traverse h op visit arg = visit_all visit (referents h op) arg"
  by (cases "Py_TYPE h op"; cases "get_a h op"; cases "get_b h op")
     (auto simp: quadraticelement2_traverse_def referents_def Py_VISIT_def split: prod.splits)

lemma visit_all_zero:
  "(\<forall>p s. fst (visit p s) = 0) \<Longrightarrow>
     visit_all visit ps arg = (0, foldl (\<lambda>s p. snd (visit p s)) arg ps)"
proof (induction ps arbitrary: arg)
  case Nil
  show ?case by simp
next
  case (Cons p ps)
  from Cons.prems have "fst (visit p arg) = 0" by simp
  then obtain arg' where v: "visit p arg = (0, arg')" by (cases "visit p arg") simp
  with Cons.IH[OF Cons.prems, of arg'] show ?case by simp
qed

lemma get_a_DECREF: "get_a h op = None \<Longrightarrow> get_a (Py_DECREF h p) op = None"
  by (cases "lookup h p"; cases "op = p")
     (auto simp: get_a_def lookup_DECREF split: option.splits body.splits if_splits)

lemma get_b_DECREF: "get_b h op = None \<Longrightarrow> get_b (Py_DECREF h p) op = None"
  by (cases "lookup h p"; cases "op = p")
     (auto simp: get_b_def lookup_DECREF split: option.splits body.splits if_splits)

lemma get_a_set_a_None: "get_a (set_a h op None) op = None"
  by (simp add: get_a_body body_at_set_a split: option.splits body.splits)

lemma get_b_set_b_None: "get_b (set_b h op None) op = None"
  by (simp add: get_b_body body_at_set_b split: option.splits body.splits)

lemma get_a_set_b: "get_a (set_b h op v) op = get_a h op"
  by (simp add: get_a_body body_at_set_b split: option.splits body.splits)

lemma clear_fields:
  "get_a (snd (quadraticelement2_clear h op)) op = None \<and>
   get_b (snd (quadraticelement2_clear h op)) op = None"
proof -
  let ?h1 = "case get_a h op of None \<Rightarrow> h | Some tmp \<Rightarrow> Py_DECREF (set_a h op None) tmp"
  let ?h2 = "case get_b ?h1 op of None \<Rightarrow> ?h1 | Some tmp \<Rightarrow> Py_DECREF (set_b ?h1 op None) tmp"
  have a1: "get_a ?h1 op = None"
    by (cases "get_a h op") (simp_all add: get_a_DECREF get_a_set_a_None)
  have a2: "get_a ?h2 op = None"
    by (cases "get_b ?h1 op") (simp_all add: a1 get_a_DECREF get_a_set_b del: option.case_eq_if)
  have b2: "get_b ?h2 op = None"
    by (cases "get_b ?h1 op") (simp_all add: get_b_DECREF get_b_set_b_None)
  have "snd (quadraticelement2_clear h op) = ?h2"
    by (simp add: quadraticelement2_clear_def Let_def)
  with a2 b2 show ?thesis by simp
qed

lemma clear_cleared:
  "get_a h op = None \<Longrightarrow> get_b h op = None \<Longrightarrow> quadraticelement2_clear h op = (0, h)"
  by (simp add: quadraticelement2_clear_def)

lemma find_member_a:
  "find (\<lambda>m. m_name m = ''a'') quadraticelement2_members =
     Some \<lparr>m_name = ''a'', m_type = Py_T_OBJECT_EX, m_offset = Offset_a, m_flags = [Py_READONLY]\<rparr>"
  by (simp add: quadraticelement2_members_def)

lemma find_member_b:
  "find (\<lambda>m. m_name m = ''b'') quadraticelement2_members =
     Some \<lparr>m_name = ''b'', m_type = Py_T_OBJECT_EX, m_offset = Offset_b, m_flags = [Py_READONLY]\<rparr>"
  by (simp add: quadraticelement2_members_def)

lemma getattr_a: "get_a h op = Some x \<Longrightarrow>
    member_getattr quadraticelement2_members h op ''a'' = (Inr x, Py_INCREF h x)"
  by (simp add: member_getattr_def find_member_a PyMember_GetOne_def field_at_def)

lemma getattr_b: "get_b h op = Some y \<Longrightarrow>
    member_getattr quadraticelement2_members h op ''b'' = (Inr y, Py_INCREF h y)"
  by (simp add: member_getattr_def find_member_b PyMember_GetOne_def field_at_def)

lemma members_readonly: "m \<in> set quadraticelement2_members \<Longrightarrow> Py_READONLY \<in> set (m_flags m)"
  by (auto simp: quadraticelement2_members_def)

lemma setattr_fails:
  "member_setattr quadraticelement2_members h op nm v = (Inl AttributeError, h)"
proof (cases "find (\<lambda>m. m_name m = nm) quadraticelement2_members")
  case None
  then show ?thesis by (simp add: member_setattr_def)
next
  case (Some m)
  then have "m \<in> set quadraticelement2_members" by (auto simp: find_Some_iff)
  with Some show ?thesis
    by (simp add: member_setattr_def PyMember_SetOne_def members_readonly)
qed

section \<open>Properties of the type and the module\<close>

lemma element_slot:
  "is_element h x \<Longrightarrow> type_slot h x sid = map_of quadraticelement2_slots sid"
  by (auto simp: is_element_def type_slot_def body_at_def type_of_spec_def quadraticelement2_spec_def
      split: option.splits)







lemma lookup_live: "lookup h p = Some obj \<Longrightarrow> p < length (objs h)"
  by (simp add: lookup_def split: if_splits)








section \<open>Elements across constructions\<close>

lemma body_at_live: "body_at h p = Some v \<Longrightarrow> p < length (objs h)"
  by (auto simp: body_at_def lookup_def split: if_splits)

lemma long_value_live: "long_value h p = Some v \<Longrightarrow> p < length (objs h)"
  by (auto simp: long_value_def dest: body_at_live split: option.splits)

lemma new_long_value_kept:
  assumes "quadraticelement2_new h tp args kwds = (Inr qe, h')" and "long_value h x = Some v"
  shows "long_value h' x = Some v"
proof -
  from new_success[OF assms(1)] have "\<forall>q<length (objs h). body_at h' q = body_at h q" by blast
  with long_value_live[OF assms(2)] assms(2) show ?thesis by (simp add: long_value_def)
qed

lemma new_field_values:
  assumes r: "quadraticelement2_new h tp args kwds = (Inr qe, h')"
      and p: "PyArg_ParseTupleAndKeywords args kwds = Inr (a0, b0)"
  shows "(a0 = None \<longrightarrow> fst (element_fields h' qe) = Some 0) \<and>
      (b0 = None \<longrightarrow> snd (element_fields h' qe) = Some 0) \<and>
      (\<forall>x v. a0 = Some x \<and> long_value h x = Some v \<longrightarrow> fst (element_fields h' qe) = Some v) \<and>
      (\<forall>y v. b0 = Some y \<and> long_value h y = Some v \<longrightarrow> snd (element_fields h' qe) = Some v)"
proof -
  from new_success[OF r] p obtain a b where
    qe: "body_at h' qe = Some (QuadraticElement2 (Some a) (Some b))" and
    a: "case a0 of Some x \<Rightarrow> a = x | None \<Rightarrow> body_at h' a = Some (PyLong 0)" and
    b: "case b0 of Some y \<Rightarrow> b = y | None \<Rightarrow> body_at h' b = Some (PyLong 0)"
    by auto
  note live = new_long_value_kept[OF r]
  have fs: "element_fields h' qe = (long_value h' a, long_value h' b)"
    using qe by (simp add: element_fields_def get_a_body get_b_body)
  have za: "long_value h' a = Some 0" if "a0 = None"
    using a that by (simp add: long_value_def)
  have zb: "long_value h' b = Some 0" if "b0 = None"
    using b that by (simp add: long_value_def)
  have ga: "a = x" if "a0 = Some x" for x using a that by simp
  have gb: "b = y" if "b0 = Some y" for y using b that by simp
  show ?thesis using za zb ga gb live by (auto simp: fs)
qed

lemma new_element_fields_kept:
  assumes r: "quadraticelement2_new h tp args kwds = (Inr qe, h')"
      and f: "element_fields h q = (Some u, Some v)"
  shows "element_fields h' q = (Some u, Some v)"
proof -
  from f obtain pa pb where
    ga: "get_a h q = Some pa" and gb: "get_b h q = Some pb" and
    va: "long_value h pa = Some u" and vb: "long_value h pb = Some v"
    by (auto simp: element_fields_def split: option.splits)
  from ga have "body_at h q \<noteq> None" by (auto simp: get_a_body split: option.splits)
  then have "q < length (objs h)" by (auto dest: body_at_live)
  with new_success[OF r] have "body_at h' q = body_at h q" by blast
  with ga gb have "get_a h' q = Some pa" "get_b h' q = Some pb"
    by (simp_all add: get_a_body get_b_body)
  with new_long_value_kept[OF r va] new_long_value_kept[OF r vb]
  show ?thesis by (simp add: element_fields_def)
qed

lemma Py_TYPE_INCREF: "Py_TYPE (Py_INCREF h p) q = Py_TYPE h q"
  by (cases "lookup h p") (auto simp: Py_TYPE_def lookup_INCREF)

lemma Py_TYPE_append:
  "objs h' = objs h @ [Some obj] \<Longrightarrow>
   Py_TYPE h' q = (if q = length (objs h) then Some (ob_type obj) else Py_TYPE h q)"
  by (simp add: Py_TYPE_def lookup_append)

lemma Py_TYPE_set_a: "Py_TYPE (set_a h op v) q = Py_TYPE h q"
  by (cases "q = op")
     (auto simp: Py_TYPE_def set_a_def lookup_store lookup_set_a_other
        split: option.splits body.splits dest: lookup_live)

lemma Py_TYPE_set_b: "Py_TYPE (set_b h op v) q = Py_TYPE h q"
  by (cases "q = op")
     (auto simp: Py_TYPE_def set_b_def lookup_store lookup_set_b_other
        split: option.splits body.splits dest: lookup_live)

lemma acquire_types:
  assumes "acquire h x = (r, h1)" and "q < length (objs h)"
  shows "Py_TYPE h1 q = Py_TYPE h q"
proof (cases x)
  case None
  with assms(1) have A: "host_alloc h \<lparr>ob_refcnt = 1, ob_type = PyLong_Type, ob_body = PyLong 0\<rparr> = (r, h1)"
    by (simp add: acquire_def PyLong_FromLong_def)
  show ?thesis
  proof (cases r)
    case None
    with A have "objs h1 = objs h" by (simp add: host_alloc_None)
    then show ?thesis by (simp add: Py_TYPE_def lookup_def)
  next
    case (Some p)
    with A have "objs h1 = objs h @ [Some \<lparr>ob_refcnt = 1, ob_type = PyLong_Type, ob_body = PyLong 0\<rparr>]"
      by (simp add: host_alloc_Some)
    with assms(2) show ?thesis by (simp add: Py_TYPE_append)
  qed
next
  case (Some p)
  with assms(1) show ?thesis by (auto simp: acquire_def Py_TYPE_INCREF)
qed

lemma tp_alloc_types:
  assumes "tp_alloc h tp = (Some qe, h1)"
  shows "Py_TYPE h1 qe = Some tp" and "q < length (objs h) \<Longrightarrow> Py_TYPE h1 q = Py_TYPE h q"
proof -
  from assms obtain h0 where
    A: "host_alloc h \<lparr>ob_refcnt = 1, ob_type = tp, ob_body = QuadraticElement2 None None\<rparr> = (Some qe, h0)"
    and h1: "h1 = Py_INCREF h0 tp"
    by (auto simp: tp_alloc_def split: prod.splits option.splits)
  note B = host_alloc_Some[OF A]
  from B show "Py_TYPE h1 qe = Some tp" by (simp add: h1 Py_TYPE_INCREF Py_TYPE_append)
  from B show "q < length (objs h) \<Longrightarrow> Py_TYPE h1 q = Py_TYPE h q"
    by (simp add: h1 Py_TYPE_INCREF Py_TYPE_append)
qed

lemma new_types:
  assumes r: "quadraticelement2_new h tp args kwds = (Inr qe, h')"
  shows "Py_TYPE h' qe = Some tp" and "q < length (objs h) \<Longrightarrow> Py_TYPE h' q = Py_TYPE h q"
proof -
  from parse_cases[of args kwds] r obtain a0 b0 where
    p: "PyArg_ParseTupleAndKeywords args kwds = Inr (a0, b0)"
    by (auto simp: new_unfold)
  obtain ra h1 where A: "acquire h a0 = (ra, h1)" by (cases "acquire h a0")
  obtain a where a: "ra = Some a" using r p A by (cases ra) (auto simp: new_unfold)
  obtain rb h2 where B: "acquire h1 b0 = (rb, h2)" by (cases "acquire h1 b0")
  obtain b where b: "rb = Some b" using r p A a B by (cases rb) (auto simp: new_unfold)
  obtain rq h3 where Q: "tp_alloc h2 tp = (rq, h3)" by (cases "tp_alloc h2 tp")
  have rq: "rq = Some qe" and h': "h' = set_b (set_a h3 qe (Some a)) qe (Some b)"
    using r p A a B b Q by (cases rq; simp add: new_unfold)+
  note Q = Q[unfolded rq]
  have l1: "length (objs h) \<le> length (objs h1)" and l2: "length (objs h1) \<le> length (objs h2)"
    using acquire_pres[OF A] acquire_pres[OF B] by (simp_all add: pres_def)
  show "Py_TYPE h' qe = Some tp"
    by (simp add: h' Py_TYPE_set_a Py_TYPE_set_b tp_alloc_types(1)[OF Q])
  show "Py_TYPE h' q = Py_TYPE h q" if "q < length (objs h)"
  proof -
    from that l1 l2 have q1: "q < length (objs h1)" and q2: "q < length (objs h2)" by simp_all
    have "Py_TYPE h' q = Py_TYPE h3 q" by (simp add: h' Py_TYPE_set_a Py_TYPE_set_b)
    also have "\<dots> = Py_TYPE h2 q" by (rule tp_alloc_types(2)[OF Q q2])
    also have "\<dots> = Py_TYPE h1 q" by (rule acquire_types[OF B q1])
    also have "\<dots> = Py_TYPE h q" by (rule acquire_types[OF A that])
    finally show ?thesis .
  qed
qed

lemma new_is_element:
  assumes r: "quadraticelement2_new h tp args kwds = (Inr qe, h')"
      and t: "body_at h tp = Some (PyTypeObject (type_of_spec quadraticelement2_spec))"
  shows "is_element h' qe"
proof -
  from new_success[OF r] body_at_live[OF t] t
  have "body_at h' tp = Some (PyTypeObject (type_of_spec quadraticelement2_spec))" by auto
  with new_types(1)[OF r] show ?thesis by (simp add: is_element_def)
qed

lemma new_is_element_kept:
  assumes r: "quadraticelement2_new h tp args kwds = (Inr qe, h')"
      and e: "is_element h q"
  shows "is_element h' q"
proof -
  from e obtain t where ty: "Py_TYPE h q = Some t"
    and tb: "body_at h t = Some (PyTypeObject (type_of_spec quadraticelement2_spec))"
    by (auto simp: is_element_def split: option.splits)
  from ty have "q < length (objs h)" by (auto simp: Py_TYPE_def dest: lookup_live)
  with new_types(2)[OF r] ty have 1: "Py_TYPE h' q = Some t" by simp
  from new_success[OF r] body_at_live[OF tb] tb
  have "body_at h' t = Some (PyTypeObject (type_of_spec quadraticelement2_spec))" by auto
  with 1 show ?thesis by (simp add: is_element_def)
qed

lemma element_compare:
  "is_element h x \<Longrightarrow> is_element h y \<Longrightarrow> PyObject_RichCompare_EQ h x y = Inr (x = y)"
  by (simp add: PyObject_RichCompare_EQ_def binary_op1_def element_slot quadraticelement2_slots_def)

section \<open>The operators and equality\<close>

text \<open>
  C1, as stated: addition of the elements (1, 2) and (3, 4) gives the element (4, 6).
  On the code the host finds no addition for the two elements and raises
  \<^verbatim>\<open>TypeError\<close>.
\<close>

theorem add_defined_counterexample:
  "is_element demo_heap3 10 \<and> is_element demo_heap3 11 \<and>
   element_fields demo_heap3 10 = (Some 1, Some 2) \<and>
   element_fields demo_heap3 11 = (Some 3, Some 4) \<and>
   PyNumber_Add demo_heap3 10 11 = Inl TypeError"
  by code_simp

text \<open>
  C1, amended: the slot table of the type has no \<^verbatim>\<open>nb_add\<close> entry (and no
  sequence slot), so for every pair of elements the host's dispatch of \<^verbatim>\<open>+\<close> finds no
  implementation and raises \<^verbatim>\<open>TypeError\<close>; no sum element is produced.
\<close>

theorem add_not_provided:
  assumes "is_element h x" and "is_element h y"
  shows "map_of quadraticelement2_slots Py_nb_add = None \<and> PyNumber_Add h x y = Inl TypeError"
  using assms
  by (simp add: PyNumber_Add_def binary_op1_def element_slot quadraticelement2_slots_def)

text \<open>C1, the amended statement at the elements (1, 2) and (3, 4).\<close>

theorem add_not_provided_witness:
  "is_element demo_heap3 10 \<and> is_element demo_heap3 11 \<and>
   map_of quadraticelement2_slots Py_nb_add = None \<and>
   PyNumber_Add demo_heap3 10 11 = Inl TypeError"
proof -
  have e: "is_element demo_heap3 10" "is_element demo_heap3 11" by code_simp+
  from add_not_provided[OF e] e show ?thesis by simp
qed

text \<open>
  C2, as stated: multiplication of the elements (1, 2) and (3, 4) gives the element
  (19, 10). On the code the host finds no multiplication for the two elements and raises
  \<^verbatim>\<open>TypeError\<close>.
\<close>

theorem multiply_defined_counterexample:
  "is_element demo_heap3 10 \<and> is_element demo_heap3 11 \<and>
   element_fields demo_heap3 10 = (Some 1, Some 2) \<and>
   element_fields demo_heap3 11 = (Some 3, Some 4) \<and>
   PyNumber_Multiply demo_heap3 10 11 = Inl TypeError"
  by code_simp

text \<open>
  C2, amended: the slot table of the type has no \<^verbatim>\<open>nb_multiply\<close> entry (and no
  sequence slot), so for every pair of elements the host's dispatch of \<^verbatim>\<open>*\<close> finds no
  implementation and raises \<^verbatim>\<open>TypeError\<close>; no product element is produced.
\<close>

theorem multiply_not_provided:
  assumes "is_element h x" and "is_element h y"
  shows "map_of quadraticelement2_slots Py_nb_multiply = None \<and>
         PyNumber_Multiply h x y = Inl TypeError"
  using assms
  by (simp add: PyNumber_Multiply_def binary_op1_def element_slot quadraticelement2_slots_def)

text \<open>C2, the amended statement at the elements (3, 4) and (1, 2).\<close>

theorem multiply_not_provided_witness:
  "is_element demo_heap3 11 \<and> is_element demo_heap3 10 \<and>
   map_of quadraticelement2_slots Py_nb_multiply = None \<and>
   PyNumber_Multiply demo_heap3 11 10 = Inl TypeError"
proof -
  have e: "is_element demo_heap3 11" "is_element demo_heap3 10" by code_simp+
  from multiply_not_provided[OF e] e show ?thesis by simp
qed

text \<open>
  C3, as stated: two elements are equal exactly when their fields are equal. On the code
  the two distinct elements at addresses 10 and 12 hold the same field objects, the
  integers 1 and 2, and compare unequal.
\<close>

theorem equality_fieldwise_counterexample:
  "is_element demo_heap4 10 \<and> is_element demo_heap4 12 \<and>
   element_fields demo_heap4 10 = (Some 1, Some 2) \<and>
   element_fields demo_heap4 12 = (Some 1, Some 2) \<and>
   get_a demo_heap4 10 = get_a demo_heap4 12 \<and>
   get_b demo_heap4 10 = get_b demo_heap4 12 \<and>
   PyObject_RichCompare_EQ demo_heap4 10 12 = Inr False"
  by code_simp

text \<open>
  C3, amended: the slot table of the type has no comparison entry, so equality of two
  elements is the host's default, identity: the comparison is true exactly when the two
  operands are the same object. Equal elements therefore have equal fields; elements with
  equal fields need not be equal.
\<close>

theorem equality_is_identity:
  assumes "is_element h x" and "is_element h y"
  shows "map_of quadraticelement2_slots Py_tp_richcompare = None \<and>
         PyObject_RichCompare_EQ h x y = Inr (x = y) \<and>
         (PyObject_RichCompare_EQ h x y = Inr True \<longrightarrow>
            get_a h x = get_a h y \<and> get_b h x = get_b h y)"
  using assms
  by (simp add: PyObject_RichCompare_EQ_def binary_op1_def element_slot quadraticelement2_slots_def)

text \<open>C3, the amended statement at two elements with the fields (1, 2).\<close>

theorem equality_is_identity_witness:
  "is_element demo_heap4 10 \<and> is_element demo_heap4 12 \<and>
   PyObject_RichCompare_EQ demo_heap4 10 12 = Inr False \<and>
   PyObject_RichCompare_EQ demo_heap4 10 10 = Inr True"
proof -
  have e: "is_element demo_heap4 10" "is_element demo_heap4 12" by code_simp+
  from equality_is_identity[OF e] equality_is_identity[OF e(1) e(1)] e show ?thesis by simp
qed

section \<open>Construction\<close>

text \<open>
  C4, as stated: an argument that cannot be converted to an integer makes construction
  fail with a conversion error. On the code the string at address 8 is accepted: the
  element is built and its field \<open>a\<close> is the string object.
\<close>

theorem new_conversion_error_counterexample:
  "body_at demo_heap1 8 = Some (PyUnicode ''x'') \<and>
   fst (quadraticelement2_new demo_heap1 9 [8] []) = Inr 11 \<and>
   get_a (snd (quadraticelement2_new demo_heap1 9 [8] [])) 11 = Some 8"
  by code_simp

text \<open>
  C4, amended: construction converts nothing. It fails only with \<^verbatim>\<open>TypeError\<close>, when
  argument parsing rejects the call (more than two arguments, or a keyword that is not a
  remaining parameter name), or with \<^verbatim>\<open>MemoryError\<close>, when a request to the host
  fails; a failed construction leaves every object and every reference count as before
  the call, so no partial object is observable. A successful one stores each given
  argument object itself, whatever its type.
\<close>

theorem new_no_conversion:
  assumes "heap_ok h"
  shows "case quadraticelement2_new h tp args kwds of
           (Inl e, h') \<Rightarrow>
             (e = TypeError \<and> PyArg_ParseTupleAndKeywords args kwds = Inl TypeError \<or>
              e = MemoryError \<and> False \<in> set (alloc_ok h)) \<and>
             (\<forall>q. lookup h' q = lookup h q)
         | (Inr qe, h') \<Rightarrow>
             (\<exists>a0 b0. PyArg_ParseTupleAndKeywords args kwds = Inr (a0, b0) \<and>
                (\<forall>x. a0 = Some x \<longrightarrow> get_a h' qe = Some x) \<and>
                (\<forall>y. b0 = Some y \<longrightarrow> get_b h' qe = Some y))"
proof (cases "quadraticelement2_new h tp args kwds")
  case (Pair r h')
  show ?thesis
  proof (cases r)
    case (Inl e)
    with Pair new_error_kind[of h tp args kwds e h'] new_error_restores[OF assms, of tp args kwds e h']
    show ?thesis by auto
  next
    case (Inr qe)
    from new_success[OF Pair[unfolded Inr]] obtain a0 b0 a b where
      p: "PyArg_ParseTupleAndKeywords args kwds = Inr (a0, b0)" and
      qe: "body_at h' qe = Some (QuadraticElement2 (Some a) (Some b))" and
      a: "case a0 of Some x \<Rightarrow> a = x | None \<Rightarrow> body_at h' a = Some (PyLong 0)" and
      b: "case b0 of Some y \<Rightarrow> b = y | None \<Rightarrow> body_at h' b = Some (PyLong 0)"
      by blast
    from qe a b have "(\<forall>x. a0 = Some x \<longrightarrow> get_a h' qe = Some x) \<and>
                (\<forall>y. b0 = Some y \<longrightarrow> get_b h' qe = Some y)"
      by (auto simp: get_a_body get_b_body)
    with Pair Inr p show ?thesis by simp
  qed
qed

text \<open>C4, the amended statement at the call with the string at address 8.\<close>

theorem new_no_conversion_witness:
  "heap_ok demo_heap1 \<and>
   (case quadraticelement2_new demo_heap1 9 [8] [] of
      (Inl e, h') \<Rightarrow> False
    | (Inr qe, h') \<Rightarrow> get_a h' qe = Some 8)"
proof -
  have ok: "heap_ok demo_heap1" by code_simp
  have p: "PyArg_ParseTupleAndKeywords [8] [] = Inr (Some 8, None)" by code_simp
  have r: "fst (quadraticelement2_new demo_heap1 9 [8] []) = Inr 11" by code_simp
  from new_no_conversion[OF ok, where tp = 9 and args = "[8]" and kwds = "[]"] p r ok show ?thesis
    by (cases "quadraticelement2_new demo_heap1 9 [8] []") auto
qed

text \<open>
  C5, as stated: the element made without arguments equals the element made from (0, 0).
  On the code the two elements, at addresses 12 and 13, have the fields (0, 0) and
  compare unequal, since equality of elements is identity.
\<close>

theorem defaults_equal_counterexample:
  "fst (quadraticelement2_new demo_heap1 9 [] []) = Inr 12 \<and>
   fst (quadraticelement2_new demo_heap5 9 [7, 7] []) = Inr 13 \<and>
   long_value demo_heap1 7 = Some 0 \<and>
   is_element demo_heap6 12 \<and> is_element demo_heap6 13 \<and>
   element_fields demo_heap6 12 = (Some 0, Some 0) \<and>
   element_fields demo_heap6 13 = (Some 0, Some 0) \<and>
   PyObject_RichCompare_EQ demo_heap6 12 13 = Inr False"
  by code_simp

text \<open>
  C5, amended: a parameter that the call omits gives the new element the integer zero in
  the corresponding field. In particular the element made without arguments and the
  element made from two integer objects of value zero both have the fields (0, 0); they
  are two distinct objects, and the host's \<^verbatim>\<open>==\<close> on them is false.
\<close>

theorem new_defaults_zero:
  "(quadraticelement2_new h tp args kwds = (Inr qe, h') \<and>
    PyArg_ParseTupleAndKeywords args kwds = Inr (a0, b0) \<longrightarrow>
      (a0 = None \<longrightarrow> fst (element_fields h' qe) = Some 0) \<and>
      (b0 = None \<longrightarrow> snd (element_fields h' qe) = Some 0)) \<and>
   (quadraticelement2_new h tp [] [] = (Inr qe0, h0) \<and>
    quadraticelement2_new h0 tp [z1, z2] [] = (Inr qe1, h1) \<and>
    long_value h z1 = Some 0 \<and> long_value h z2 = Some 0 \<and>
    body_at h tp = Some (PyTypeObject (type_of_spec quadraticelement2_spec)) \<longrightarrow>
      element_fields h1 qe0 = (Some 0, Some 0) \<and>
      element_fields h1 qe1 = (Some 0, Some 0) \<and>
      is_element h1 qe0 \<and> is_element h1 qe1 \<and>
      qe0 \<noteq> qe1 \<and>
      PyObject_RichCompare_EQ h1 qe0 qe1 = Inr False)"
proof -
  have P1: "quadraticelement2_new h tp args kwds = (Inr qe, h') \<and>
    PyArg_ParseTupleAndKeywords args kwds = Inr (a0, b0) \<longrightarrow>
      (a0 = None \<longrightarrow> fst (element_fields h' qe) = Some 0) \<and>
      (b0 = None \<longrightarrow> snd (element_fields h' qe) = Some 0)"
    using new_field_values by blast
  have P2: "element_fields h1 qe0 = (Some 0, Some 0) \<and>
      element_fields h1 qe1 = (Some 0, Some 0) \<and>
      is_element h1 qe0 \<and> is_element h1 qe1 \<and>
      qe0 \<noteq> qe1 \<and>
      PyObject_RichCompare_EQ h1 qe0 qe1 = Inr False"
    if r0: "quadraticelement2_new h tp [] [] = (Inr qe0, h0)"
      and r1: "quadraticelement2_new h0 tp [z1, z2] [] = (Inr qe1, h1)"
      and z1: "long_value h z1 = Some 0" and z2: "long_value h z2 = Some 0"
      and t: "body_at h tp = Some (PyTypeObject (type_of_spec quadraticelement2_spec))"
  proof -
    from new_field_values[OF r0 parse_empty]
    have f0: "element_fields h0 qe0 = (Some 0, Some 0)" by (simp add: prod_eq_iff)
    then have 1: "element_fields h1 qe0 = (Some 0, Some 0)"
      by (rule new_element_fields_kept[OF r1])
    from new_field_values[OF r1 parse_positional]
      new_long_value_kept[OF r0 z1] new_long_value_kept[OF r0 z2]
    have 2: "element_fields h1 qe1 = (Some 0, Some 0)" by (simp add: prod_eq_iff)
    from new_success[OF r0] body_at_live[OF t] t
    have t0: "body_at h0 tp = Some (PyTypeObject (type_of_spec quadraticelement2_spec))" by auto
    have e0: "is_element h1 qe0"
      by (rule new_is_element_kept[OF r1 new_is_element[OF r0 t]])
    have e1: "is_element h1 qe1" by (rule new_is_element[OF r1 t0])
    from new_success[OF r0] have "body_at h0 qe0 \<noteq> None" by auto
    then have "qe0 < length (objs h0)" by (auto dest: body_at_live)
    moreover from new_success[OF r1] have "length (objs h0) \<le> qe1" by blast
    ultimately have ne: "qe0 \<noteq> qe1" by simp
    from element_compare[OF e0 e1] ne
    have "PyObject_RichCompare_EQ h1 qe0 qe1 = Inr False" by simp
    with 1 2 e0 e1 ne show ?thesis by blast
  qed
  from P1 P2 show ?thesis by blast
qed

text \<open>
  C5, the amended statement at the calls without arguments and with the integer zero at
  address 7 twice.
\<close>

theorem new_defaults_zero_witness:
  "(quadraticelement2_new demo_heap1 9 [] [] = (Inr 12, demo_heap5) \<and>
    PyArg_ParseTupleAndKeywords [] [] = Inr (None, None)) \<and>
   (quadraticelement2_new demo_heap5 9 [7, 7] [] = (Inr 13, demo_heap6) \<and>
    long_value demo_heap1 7 = Some 0 \<and>
    body_at demo_heap1 9 = Some (PyTypeObject (type_of_spec quadraticelement2_spec))) \<and>
   element_fields demo_heap5 12 = (Some 0, Some 0) \<and>
   element_fields demo_heap6 12 = (Some 0, Some 0) \<and>
   element_fields demo_heap6 13 = (Some 0, Some 0) \<and>
   is_element demo_heap6 12 \<and> is_element demo_heap6 13 \<and>
   PyObject_RichCompare_EQ demo_heap6 12 13 = Inr False"
proof -
  have r0: "quadraticelement2_new demo_heap1 9 [] [] = (Inr 12, demo_heap5)" by code_simp
  have p0: "PyArg_ParseTupleAndKeywords [] [] = Inr (None, None)" by code_simp
  have r1: "quadraticelement2_new demo_heap5 9 [7, 7] [] = (Inr 13, demo_heap6)" by code_simp
  have z: "long_value demo_heap1 7 = Some 0" by code_simp
  have t: "body_at demo_heap1 9 = Some (PyTypeObject (type_of_spec quadraticelement2_spec))"
    by code_simp
  from new_defaults_zero[of demo_heap1 9 "[]" "[]" 12 demo_heap5 None None 12 demo_heap5 7 7 13 demo_heap6]
    r0 p0 r1 z t
  have "fst (element_fields demo_heap5 12) = Some 0 \<and> snd (element_fields demo_heap5 12) = Some 0"
    and "element_fields demo_heap6 12 = (Some 0, Some 0) \<and>
      element_fields demo_heap6 13 = (Some 0, Some 0) \<and>
      is_element demo_heap6 12 \<and> is_element demo_heap6 13 \<and>
      PyObject_RichCompare_EQ demo_heap6 12 13 = Inr False"
    by blast+
  with r0 p0 r1 z t show ?thesis by (simp add: prod_eq_iff)
qed

text \<open>
  C6: when \<open>quadraticelement2_new\<close> fails, at whatever step, every reference it had
  acquired has been released before it returns: each heap cell, reference counts
  included, is as it was before the call, and a default integer that was created has
  been freed again. The heap is any heap whose live objects are referenced.
\<close>

theorem new_failure_releases_references:
  assumes "heap_ok h" and "quadraticelement2_new h tp args kwds = (Inl e, h')"
  shows "\<forall>q. lookup h' q = lookup h q"
  using new_error_restores[OF assms] by simp

text \<open>
  C6 at a call that is given \<open>a\<close>, creates the default for \<open>b\<close>, and fails to allocate
  the element.
\<close>

theorem new_failure_releases_references_witness:
  "heap_ok demo_heap_fail \<and>
   quadraticelement2_new demo_heap_fail 9 [3] [] =
     (Inl MemoryError, snd (quadraticelement2_new demo_heap_fail 9 [3] [])) \<and>
   (\<forall>q. lookup (snd (quadraticelement2_new demo_heap_fail 9 [3] [])) q = lookup demo_heap_fail q)"
proof -
  have ok: "heap_ok demo_heap_fail" by code_simp
  have r: "quadraticelement2_new demo_heap_fail 9 [3] [] =
     (Inl MemoryError, snd (quadraticelement2_new demo_heap_fail 9 [3] []))" by code_simp
  from ok r new_failure_releases_references[OF ok r] show ?thesis by blast
qed

text \<open>
  C9, as stated: with both arguments supplied construction succeeds. On the code the
  call with the integers at addresses 3 and 4 fails with \<^verbatim>\<open>MemoryError\<close> when the host
  cannot allocate the element.
\<close>

theorem new_keeps_arguments_counterexample:
  "PyArg_ParseTupleAndKeywords [3, 4] [] = Inr (Some 3, Some 4) \<and>
   fst (quadraticelement2_new demo_heap_nomem 9 [3, 4] []) = Inl MemoryError"
  by code_simp

text \<open>
  C9, amended: with both arguments supplied, of any type, construction succeeds exactly
  when the host's allocation of the element succeeds, and fails with \<^verbatim>\<open>MemoryError\<close>
  otherwise. On success the fields \<open>a\<close> and \<open>b\<close> are the argument objects themselves:
  every object that existed before the call is unchanged except that its reference count
  has grown by the number of times it occurs among \<open>a\<close>, \<open>b\<close> and the type, so nothing
  is converted or copied.
\<close>

theorem new_keeps_arguments:
  assumes "PyArg_ParseTupleAndKeywords args kwds = Inr (Some x, Some y)"
  shows "(fst (host_try h) \<longrightarrow>
            (\<exists>qe h'. quadraticelement2_new h tp args kwds = (Inr qe, h') \<and>
               get_a h' qe = Some x \<and> get_b h' qe = Some y \<and>
               (\<forall>q<length (objs h). lookup h' q =
                  map_option (\<lambda>obj. obj\<lparr>ob_refcnt := ob_refcnt obj + count_list [x, y, tp] q\<rparr>)
                    (lookup h q)))) \<and>
         (\<not> fst (host_try h) \<longrightarrow> fst (quadraticelement2_new h tp args kwds) = Inl MemoryError)"
proof (cases "fst (host_try h)")
  case False
  with new_given_both[OF assms, of h tp] show ?thesis by simp
next
  case True
  obtain r h' where R: "quadraticelement2_new h tp args kwds = (r, h')"
    by (cases "quadraticelement2_new h tp args kwds")
  with new_given_both[OF assms, of h tp] True have r: "r = Inr (length (objs h))" by simp
  note R = R[unfolded r]
  from new_success[OF R] assms
  have b: "body_at h' (length (objs h)) = Some (QuadraticElement2 (Some x) (Some y))" by auto
  then have "get_a h' (length (objs h)) = Some x" "get_b h' (length (objs h)) = Some y"
    by (simp_all add: get_a_body get_b_body)
  with R new_given_both_refcounts[OF assms R] True show ?thesis by blast
qed

text \<open>C9, the amended statement at the call with the string at address 8 and the integer at 3.\<close>

theorem new_keeps_arguments_witness:
  "PyArg_ParseTupleAndKeywords [8, 3] [] = Inr (Some 8, Some 3) \<and>
   fst (host_try demo_heap1) \<and>
   fst (quadraticelement2_new demo_heap1 9 [8, 3] []) = Inr 10 \<and>
   get_a (snd (quadraticelement2_new demo_heap1 9 [8, 3] [])) 10 = Some 8 \<and>
   get_b (snd (quadraticelement2_new demo_heap1 9 [8, 3] [])) 10 = Some 3 \<and>
   lookup (snd (quadraticelement2_new demo_heap1 9 [8, 3] [])) 8 =
     Some \<lparr>ob_refcnt = 2, ob_type = 0, ob_body = PyUnicode ''x''\<rparr>"
proof -
  have p: "PyArg_ParseTupleAndKeywords [8, 3] [] = Inr (Some 8, Some 3)" by code_simp
  have t: "fst (host_try demo_heap1)" by code_simp
  have l: "8 < length (objs demo_heap1)" by code_simp
  have o: "lookup demo_heap1 8 = Some \<lparr>ob_refcnt = 1, ob_type = 0, ob_body = PyUnicode ''x''\<rparr>"
    by code_simp
  have f: "fst (quadraticelement2_new demo_heap1 9 [8, 3] []) = Inr 10" by code_simp
  from new_keeps_arguments[OF p, of demo_heap1 9] t obtain qe h' where
    r: "quadraticelement2_new demo_heap1 9 [8, 3] [] = (Inr qe, h')" and
    g: "get_a h' qe = Some 8" "get_b h' qe = Some 3" and
    c: "\<forall>q<length (objs demo_heap1). lookup h' q =
          map_option (\<lambda>obj. obj\<lparr>ob_refcnt := ob_refcnt obj + count_list [8, 3, 9] q\<rparr>)
            (lookup demo_heap1 q)"
    by blast
  from r f have qe: "qe = 10" by simp
  from c l o have "lookup h' 8 = Some \<lparr>ob_refcnt = 2, ob_type = 0, ob_body = PyUnicode ''x''\<rparr>"
    by simp
  with p t f g r qe show ?thesis by simp
qed

section \<open>Members and the collector callbacks\<close>

text \<open>
  C7: the members \<open>a\<close> and \<open>b\<close> of a constructed element read the stored objects (a new
  reference to each), and every attempt to set or delete an attribute through the member
  table fails with \<^verbatim>\<open>AttributeError\<close> and changes nothing. The type installs no
  attribute setter of its own and is immutable, so the member table stays in force.
\<close>

theorem members_read_only:
  "(quadraticelement2_new h tp args kwds = (Inr qe, h') \<longrightarrow>
      (\<exists>x y. get_a h' qe = Some x \<and> get_b h' qe = Some y \<and>
         member_getattr quadraticelement2_members h' qe ''a'' = (Inr x, Py_INCREF h' x) \<and>
         member_getattr quadraticelement2_members h' qe ''b'' = (Inr y, Py_INCREF h' y))) \<and>
   (\<forall>m \<in> set quadraticelement2_members. PyMember_SetOne h1 op m v = (Inl AttributeError, h1)) \<and>
   member_setattr quadraticelement2_members h1 op nm v = (Inl AttributeError, h1) \<and>
   map_of quadraticelement2_slots Py_tp_setattro = None \<and>
   Py_TPFLAGS_IMMUTABLETYPE \<in> set (spec_flags quadraticelement2_spec)"
proof -
  have 1: "\<exists>x y. get_a h' qe = Some x \<and> get_b h' qe = Some y \<and>
         member_getattr quadraticelement2_members h' qe ''a'' = (Inr x, Py_INCREF h' x) \<and>
         member_getattr quadraticelement2_members h' qe ''b'' = (Inr y, Py_INCREF h' y)"
    if r: "quadraticelement2_new h tp args kwds = (Inr qe, h')"
  proof -
    from new_success[OF r] obtain x y where
      "body_at h' qe = Some (QuadraticElement2 (Some x) (Some y))" by blast
    then have "get_a h' qe = Some x" "get_b h' qe = Some y"
      by (simp_all add: get_a_body get_b_body)
    then show ?thesis by (auto simp: getattr_a getattr_b)
  qed
  have 2: "\<forall>m \<in> set quadraticelement2_members. PyMember_SetOne h1 op m v = (Inl AttributeError, h1)"
    by (simp add: PyMember_SetOne_def members_readonly)
  have 3: "map_of quadraticelement2_slots Py_tp_setattro = None \<and>
           Py_TPFLAGS_IMMUTABLETYPE \<in> set (spec_flags quadraticelement2_spec)"
    by (simp add: quadraticelement2_slots_def quadraticelement2_spec_def)
  from 1 2 3 setattr_fails show ?thesis by blast
qed

text \<open>C7 at the element (1, 2).\<close>

theorem members_read_only_witness:
  "quadraticelement2_new demo_heap1 9 [3, 4] [] = (Inr 10, demo_heap2) \<and>
   member_getattr quadraticelement2_members demo_heap2 10 ''a'' = (Inr 3, Py_INCREF demo_heap2 3) \<and>
   member_getattr quadraticelement2_members demo_heap2 10 ''b'' = (Inr 4, Py_INCREF demo_heap2 4) \<and>
   member_setattr quadraticelement2_members demo_heap2 10 ''a'' (Some 5) =
     (Inl AttributeError, demo_heap2)"
proof -
  have r: "quadraticelement2_new demo_heap1 9 [3, 4] [] = (Inr 10, demo_heap2)" by code_simp
  have g: "get_a demo_heap2 10 = Some 3" "get_b demo_heap2 10 = Some 4" by code_simp+
  from members_read_only[of demo_heap1 9 "[3, 4]" "[]" 10 demo_heap2 demo_heap2 10 "Some 5" "''a''"] r g
  show ?thesis by auto
qed

text \<open>
  C8, as stated: the traversal callback returns success on every input. On the code a
  visitor that returns 1 makes the traversal of the element at address 10 return 1 after
  the first visit, with the fields \<open>a\<close> and \<open>b\<close> not reported.
\<close>

theorem traverse_clear_infallible_counterexample:
  "quadraticelement2_traverse demo_heap3 10 failing_visit [] = (1, [9]) \<and>
   get_a demo_heap3 10 = Some 3 \<and> get_b demo_heap3 10 = Some 4"
  by code_simp

text \<open>
  C8, amended: the traversal callback visits the type of the element and each field that
  is not \<^verbatim>\<open>NULL\<close>, in the order type, \<open>a\<close>, \<open>b\<close>, and stops at the first visit whose
  result is not zero, returning that result; with a visitor that always returns zero it
  reports all of them and returns zero. The clear callback returns zero on every input
  and leaves both fields \<^verbatim>\<open>NULL\<close>; a second call, or a call on an element whose fields
  are already \<^verbatim>\<open>NULL\<close>, changes nothing.
\<close>

theorem traverse_clear:
  "quadraticelement2_traverse h op visit arg = visit_all visit (referents h op) arg \<and>
   ((\<forall>p s. fst (visit p s) = 0) \<longrightarrow>
      quadraticelement2_traverse h op visit arg =
        (0, foldl (\<lambda>s p. snd (visit p s)) arg (referents h op))) \<and>
   fst (quadraticelement2_clear h op) = 0 \<and>
   get_a (snd (quadraticelement2_clear h op)) op = None \<and>
   get_b (snd (quadraticelement2_clear h op)) op = None \<and>
   quadraticelement2_clear (snd (quadraticelement2_clear h op)) op =
     (0, snd (quadraticelement2_clear h op)) \<and>
   (get_a h op = None \<and> get_b h op = None \<longrightarrow> quadraticelement2_clear h op = (0, h)) \<and>
   (\<forall>tmp. get_a h op = None \<and> get_b h op = Some tmp \<longrightarrow>
      quadraticelement2_clear h op = (0, Py_DECREF (set_b h op None) tmp))"
proof -
  have 1: "quadraticelement2_traverse h op visit arg = visit_all visit (referents h op) arg"
    by (rule traverse_visit_all)
  have 2: "(\<forall>p s. fst (visit p s) = 0) \<longrightarrow>
      quadraticelement2_traverse h op visit arg =
        (0, foldl (\<lambda>s p. snd (visit p s)) arg (referents h op))"
    by (simp add: traverse_visit_all visit_all_zero)
  have 3: "fst (quadraticelement2_clear h op) = 0"
    by (simp add: quadraticelement2_clear_def Let_def)
  note 4 = clear_fields[of h op]
  from 4 have 5: "quadraticelement2_clear (snd (quadraticelement2_clear h op)) op =
     (0, snd (quadraticelement2_clear h op))"
    by (simp add: clear_cleared)
  have 6: "get_a h op = None \<and> get_b h op = None \<longrightarrow> quadraticelement2_clear h op = (0, h)"
    by (simp add: clear_cleared)
  have 7: "\<forall>tmp. get_a h op = None \<and> get_b h op = Some tmp \<longrightarrow>
      quadraticelement2_clear h op = (0, Py_DECREF (set_b h op None) tmp)"
    by (simp add: quadraticelement2_clear_def)
  from 1 2 3 4 5 6 7 show ?thesis by blast
qed

text \<open>C8, the amended statement at the element (1, 2) with a visitor that records its calls.\<close>

theorem traverse_clear_witness:
  "(\<forall>p s. fst (recording_visit p s) = 0) \<and>
   referents demo_heap3 10 = [9, 3, 4] \<and>
   quadraticelement2_traverse demo_heap3 10 recording_visit [] = (0, [9, 3, 4]) \<and>
   get_a (snd (quadraticelement2_clear demo_heap3 10)) 10 = None \<and>
   get_b (snd (quadraticelement2_clear demo_heap3 10)) 10 = None \<and>
   quadraticelement2_clear (snd (quadraticelement2_clear demo_heap3 10)) 10 =
     (0, snd (quadraticelement2_clear demo_heap3 10))"
proof -
  have z: "\<forall>p s. fst (recording_visit p s) = 0" by (simp add: recording_visit_def)
  have r: "referents demo_heap3 10 = [9, 3, 4]" by code_simp
  from traverse_clear[of demo_heap3 10 recording_visit "[]"] z r
  show ?thesis by (simp add: recording_visit_def)
qed

section \<open>The module\<close>



end
